theory Spec2Isabelle
  imports Complex_Main
begin

section \<open>FastStray: trajectory compression (compress.py)\<close>

text \<open>
  The class \<^verbatim>\<open>FastStray\<close> of \<^verbatim>\<open>compress.py\<close> smooths a trajectory of
  (lon, lat, timestamp) rows with a moving average, scores every sample by the inverse squared
  correlation of space and time over a neighbourhood, and keeps the samples whose score is
  the maximum of a third neighbourhood. Every method mutates the object; here a method
  takes the object and returns the updated one, or the exception it raises.
\<close>

subsection \<open>Exceptions\<close>

datatype pyerror = AttributeError | IndexError | KeyError | ValueError | ZeroDivisionError

definition bindE :: "pyerror + 'a \<Rightarrow> ('a \<Rightarrow> pyerror + 'b) \<Rightarrow> pyerror + 'b" where
  "bindE m f = (case m of Inl e \<Rightarrow> Inl e | Inr v \<Rightarrow> f v)"

text \<open>A Python \<^verbatim>\<open>map\<close> consumed from left to right: the first exception ends it.\<close>

fun mapE :: "('a \<Rightarrow> pyerror + 'b) \<Rightarrow> 'a list \<Rightarrow> pyerror + 'b list" where
  "mapE f [] = Inr []"
| "mapE f (x # xs) =
     (case f x of Inl e \<Rightarrow> Inl e
      | Inr y \<Rightarrow> (case mapE f xs of Inl e \<Rightarrow> Inl e | Inr ys \<Rightarrow> Inr (y # ys)))"

text \<open>Reading an attribute that no method has assigned yet raises \<^verbatim>\<open>AttributeError\<close>.\<close>

definition attr :: "'a option \<Rightarrow> pyerror + 'a" where
  "attr v = (case v of None \<Rightarrow> Inl AttributeError | Some a \<Rightarrow> Inr a)"

subsection \<open>Numbers\<close>

text \<open>
  A \<^verbatim>\<open>float64\<close> is a finite value, an infinity or NaN. Finite values are reals:
  rounding, overflow and the sign of zero are left out; the special values follow IEEE 754
  as numpy applies it (a division by zero is an infinity or NaN with a warning, never an
  exception).
\<close>

datatype npfloat = Fin real | PInf | NInf | NaN

fun fneg :: "npfloat \<Rightarrow> npfloat" where
  "fneg (Fin a) = Fin (- a)"
| "fneg PInf = NInf"
| "fneg NInf = PInf"
| "fneg NaN = NaN"

fun fadd :: "npfloat \<Rightarrow> npfloat \<Rightarrow> npfloat" where
  "fadd NaN _ = NaN"
| "fadd _ NaN = NaN"
| "fadd (Fin a) (Fin b) = Fin (a + b)"
| "fadd PInf NInf = NaN"
| "fadd NInf PInf = NaN"
| "fadd PInf _ = PInf"
| "fadd _ PInf = PInf"
| "fadd NInf _ = NInf"
| "fadd _ NInf = NInf"

definition fsub :: "npfloat \<Rightarrow> npfloat \<Rightarrow> npfloat" where
  "fsub a b = fadd a (fneg b)"

fun fmul :: "npfloat \<Rightarrow> npfloat \<Rightarrow> npfloat" where
  "fmul NaN _ = NaN"
| "fmul _ NaN = NaN"
| "fmul (Fin a) (Fin b) = Fin (a * b)"
| "fmul (Fin a) PInf = (if a = 0 then NaN else if 0 < a then PInf else NInf)"
| "fmul (Fin a) NInf = (if a = 0 then NaN else if 0 < a then NInf else PInf)"
| "fmul PInf (Fin b) = (if b = 0 then NaN else if 0 < b then PInf else NInf)"
| "fmul NInf (Fin b) = (if b = 0 then NaN else if 0 < b then NInf else PInf)"
| "fmul PInf PInf = PInf"
| "fmul NInf NInf = PInf"
| "fmul PInf NInf = NInf"
| "fmul NInf PInf = NInf"

fun fdiv :: "npfloat \<Rightarrow> npfloat \<Rightarrow> npfloat" where
  "fdiv NaN _ = NaN"
| "fdiv _ NaN = NaN"
| "fdiv (Fin a) (Fin b) =
     (if b = 0 then (if a = 0 then NaN else if 0 < a then PInf else NInf) else Fin (a / b))"
| "fdiv (Fin a) _ = Fin 0"
| "fdiv PInf (Fin b) = (if 0 \<le> b then PInf else NInf)"
| "fdiv NInf (Fin b) = (if 0 \<le> b then NInf else PInf)"
| "fdiv _ _ = NaN"

text \<open>\<^verbatim>\<open>x ** 2\<close>\<close>

fun fsq :: "npfloat \<Rightarrow> npfloat" where
  "fsq (Fin a) = Fin (a\<^sup>2)"
| "fsq PInf = PInf"
| "fsq NInf = PInf"
| "fsq NaN = NaN"

text \<open>\<^verbatim>\<open>np.sign\<close>\<close>

fun fsign :: "npfloat \<Rightarrow> npfloat" where
  "fsign (Fin a) = Fin (sgn a)"
| "fsign PInf = Fin 1"
| "fsign NInf = Fin (- 1)"
| "fsign NaN = NaN"

text \<open>The comparisons \<^verbatim>\<open>a > b\<close> and \<^verbatim>\<open>a == b\<close>: both are false when a side is NaN.\<close>

fun fgt :: "npfloat \<Rightarrow> npfloat \<Rightarrow> bool" where
  "fgt NaN _ = False"
| "fgt _ NaN = False"
| "fgt (Fin a) (Fin b) = (b < a)"
| "fgt PInf PInf = False"
| "fgt PInf _ = True"
| "fgt _ PInf = False"
| "fgt NInf _ = False"
| "fgt _ NInf = True"

fun feq :: "npfloat \<Rightarrow> npfloat \<Rightarrow> bool" where
  "feq NaN _ = False"
| "feq _ NaN = False"
| "feq a b = (a = b)"

definition is_nan :: "npfloat \<Rightarrow> bool" where
  "is_nan a = (case a of NaN \<Rightarrow> True | _ \<Rightarrow> False)"


subsection \<open>Index windows\<close>

text \<open>
  \<^verbatim>\<open>np.arange(start, stop)\<close> on integers: \<open>stop - start\<close> values counted up from
  \<open>start\<close>, none when \<open>stop \<le> start\<close>.
\<close>

definition arange :: "int \<Rightarrow> int \<Rightarrow> int list" where
  "arange start stop = map (\<lambda>k. start + int k) [0..<nat (stop - start)]"

text \<open>
  \<^verbatim>\<open>
  def get_params_idx(idx, value, sample_size):
      inf, sup = max(0, idx - value), min(idx + value, sample_size)
      return np.arange(inf, sup)
  \<close>
\<close>

definition get_params_idx :: "int \<Rightarrow> int \<Rightarrow> int \<Rightarrow> int list" where
  "get_params_idx idx val sample_size =
     (let inf = max 0 (idx - val); sup = min (idx + val) sample_size
      in arange inf sup)"

subsection \<open>Array access and reductions\<close>

text \<open>
  \<^verbatim>\<open>a[index, :]\<close> with an integer index array, and \<^verbatim>\<open>list.__getitem__\<close>: an
  index \<open>j\<close> with \<open>- len \<le> j < len\<close> picks a row (a negative one counts from the
  end), any other raises \<^verbatim>\<open>IndexError\<close>.
\<close>

definition take_rows :: "'a list \<Rightarrow> int list \<Rightarrow> pyerror + 'a list" where
  "take_rows xs index =
     (let n = int (length xs)
      in if list_all (\<lambda>j. - n \<le> j \<and> j < n) index
         then Inr (map (\<lambda>j. xs ! nat (if j < 0 then j + n else j)) index)
         else Inl IndexError)"

text \<open>
  \<^verbatim>\<open>np.array\<close> of an empty Python list has shape \<open>(0,)\<close>: a second index on it
  raises \<^verbatim>\<open>IndexError\<close>. The filtered spatial array is built that way.
\<close>

definition take_rows2 :: "'a list \<Rightarrow> int list \<Rightarrow> pyerror + 'a list" where
  "take_rows2 xs index = (if xs = [] then Inl IndexError else take_rows xs index)"

text \<open>
  \<^verbatim>\<open>mean\<close> of a column: the sum divided by the count, so NaN (0/0) for no rows.
\<close>

definition np_mean :: "npfloat list \<Rightarrow> npfloat" where
  "np_mean xs = fdiv (foldl fadd (Fin 0) xs) (Fin (real (length xs)))"

definition mean_rows :: "(npfloat \<times> npfloat) list \<Rightarrow> npfloat \<times> npfloat" where
  "mean_rows rows = (np_mean (map fst rows), np_mean (map snd rows))"

text \<open>
  The builtin \<^verbatim>\<open>max\<close>: it keeps the first item and replaces it by a later one that
  compares greater; no item raises \<^verbatim>\<open>ValueError\<close>.
\<close>

fun pymax_from :: "npfloat \<Rightarrow> npfloat list \<Rightarrow> npfloat" where
  "pymax_from m [] = m"
| "pymax_from m (x # xs) = pymax_from (if fgt x m then x else m) xs"

definition pymax :: "npfloat list \<Rightarrow> pyerror + npfloat" where
  "pymax xs = (case xs of [] \<Rightarrow> Inl ValueError | x # r \<Rightarrow> Inr (pymax_from x r))"

subsection \<open>The correlation coefficient of the library\<close>

text \<open>
  \<^verbatim>\<open>from scipy.stats import pearsonr as corr\<close>. The scorer is written over any
  \<open>corr\<close>; \<open>pearsonr\<close> below follows the library function on exact reals: unequal
  lengths or fewer than two values raise \<^verbatim>\<open>ValueError\<close>, a constant input gives NaN
  (with a warning), two values give the product of the signs of the two differences, and
  otherwise the centred vectors are normalised, multiplied and the result clipped to
  \<open>[-1, 1]\<close>. A value that is not finite makes the centred vector NaN.
\<close>

text \<open>\<^verbatim>\<open>(x == x[0]).all()\<close>\<close>

definition is_constant :: "npfloat list \<Rightarrow> bool" where
  "is_constant x = list_all (\<lambda>v. feq v (hd x)) x"

definition finites :: "npfloat list \<Rightarrow> real list option" where
  "finites xs = those (map (\<lambda>v. case v of Fin r \<Rightarrow> Some r | _ \<Rightarrow> None) xs)"

definition pearson_real :: "real list \<Rightarrow> real list \<Rightarrow> real" where
  "pearson_real x y =
     (let xmean = sum_list x / real (length x);
          ymean = sum_list y / real (length y);
          xm = map (\<lambda>v. v - xmean) x;
          ym = map (\<lambda>v. v - ymean) y;
          normxm = sqrt (sum_list (map (\<lambda>v. v\<^sup>2) xm));
          normym = sqrt (sum_list (map (\<lambda>v. v\<^sup>2) ym));
          r = sum_list (map2 (*) (map (\<lambda>v. v / normxm) xm) (map (\<lambda>v. v / normym) ym))
      in max (min r 1) (- 1))"

definition pearsonr :: "npfloat list \<Rightarrow> npfloat list \<Rightarrow> pyerror + npfloat" where
  "pearsonr x y =
     (if length x \<noteq> length y then Inl ValueError
      else if length x < 2 then Inl ValueError
      else if is_constant x \<or> is_constant y then Inr NaN
      else if length x = 2
        then Inr (fmul (fsign (fsub (x ! 1) (x ! 0))) (fsign (fsub (y ! 1) (y ! 0))))
      else (case (finites x, finites y) of
              (Some xr, Some yr) \<Rightarrow> Inr (Fin (pearson_real xr yr))
            | _ \<Rightarrow> Inr NaN))"

subsection \<open>The class\<close>

text \<open>
  A row of \<^verbatim>\<open>position\<close> is (lon, lat, timestamp): \<^verbatim>\<open>space\<close> is 2, as the
  scorer's \<^verbatim>\<open>ppx, ppy = pp.T\<close> needs. \<^verbatim>\<open>sample_size\<close> is a field of its own
  (its default is taken from the default trajectory); the attributes below it exist only
  once a method has assigned them. \<^verbatim>\<open>temporal_position\<close> is a column of shape
  \<open>(n, 1)\<close>, here the list of its values.
\<close>

record FastStray =
  params :: "string \<rightharpoonup> int"
  position :: "(npfloat \<times> npfloat \<times> npfloat) list"
  sample_size :: int
  spatial_position :: "(npfloat \<times> npfloat) list option"
  temporal_position :: "npfloat list option"
  filtering_spatial_position :: "(npfloat \<times> npfloat) list option"
  filtering_temporal_position :: "npfloat list option"
  coeff :: "npfloat list option"
  max_coeff :: "npfloat list option"
  simplified_spatial_position :: "(npfloat \<times> npfloat) list option"
  simplified_temporal_position :: "npfloat list option"

text \<open>
  \<^verbatim>\<open>
  def get_index(self, param):
      return [*map(self.get_params_idx, range(self.sample_size),
                   [self.params[param]]*self.sample_size, [self.sample_size]*self.sample_size)]
  \<close>
\<close>

definition get_index :: "FastStray \<Rightarrow> string \<Rightarrow> pyerror + int list list" where
  "get_index self param =
     (case params self param of
        None \<Rightarrow> Inl KeyError
      | Some v \<Rightarrow>
          Inr (map (\<lambda>i. get_params_idx i v (sample_size self)) (arange 0 (sample_size self))))"

text \<open>
  \<^verbatim>\<open>
  def mean_position(self, index):
      return self.spatial_position[index,:].mean(axis=0)
  \<close>
\<close>

definition mean_position :: "FastStray \<Rightarrow> int list \<Rightarrow> pyerror + npfloat \<times> npfloat" where
  "mean_position self index =
     bindE (attr (spatial_position self)) (\<lambda>sp.
     bindE (take_rows sp index) (\<lambda>rows. Inr (mean_rows rows)))"

text \<open>
  \<^verbatim>\<open>
  def moving_average(self):
      self.spatial_position = self.position[:,:self.space]
      self.temporal_position = self.position[:,self.space].reshape(-1, 1)
      idx = self.get_index(param='alpha')
      new_spatial_position = np.array([*map(self.mean_position, idx)])
      self.filtering_spatial_position, self.filtering_temporal_position =
          new_spatial_position, self.temporal_position
  \<close>
  A method that raises returns the exception; the object it leaves half updated is not kept.
\<close>

definition moving_average :: "FastStray \<Rightarrow> pyerror + FastStray" where
  "moving_average self =
     (let self1 = self\<lparr>spatial_position := Some (map (\<lambda>(x, y, t). (x, y)) (position self)),
                       temporal_position := Some (map (\<lambda>(x, y, t). t) (position self))\<rparr>
      in bindE (get_index self1 ''alpha'') (\<lambda>idx.
         bindE (mapE (mean_position self1) idx) (\<lambda>new_spatial_position.
         Inr (self1\<lparr>filtering_spatial_position := Some new_spatial_position,
                    filtering_temporal_position := temporal_position self1\<rparr>))))"

definition sub_spatial_array :: "FastStray \<Rightarrow> int list \<Rightarrow> pyerror + (npfloat \<times> npfloat) list" where
  "sub_spatial_array self index =
     bindE (attr (filtering_spatial_position self)) (\<lambda>a. take_rows2 a index)"

definition sub_temporal_array :: "FastStray \<Rightarrow> int list \<Rightarrow> pyerror + npfloat list" where
  "sub_temporal_array self index =
     bindE (attr (filtering_temporal_position self)) (\<lambda>a. take_rows a index)"

text \<open>
  \<^verbatim>\<open>
  def ksi_func(pp, tt):
      ppx, ppy = pp.T
      rat_x = corr(ppx, tt.flatten())[0] ** 2
      rat_y = corr(ppy, tt.flatten())[0] ** 2
      return 1./ rat_x + 1./ rat_y
  \<close>
\<close>

definition ksi_func ::
  "(npfloat list \<Rightarrow> npfloat list \<Rightarrow> pyerror + npfloat) \<Rightarrow>
   (npfloat \<times> npfloat) list \<Rightarrow> npfloat list \<Rightarrow> pyerror + npfloat" where
  "ksi_func corr pp tt =
     (let ppx = map fst pp; ppy = map snd pp
      in bindE (corr ppx tt) (\<lambda>rx.
         let rat_x = fsq rx
         in bindE (corr ppy tt) (\<lambda>ry.
            let rat_y = fsq ry
            in Inr (fadd (fdiv (Fin 1) rat_x) (fdiv (Fin 1) rat_y)))))"

text \<open>
  \<^verbatim>\<open>
  def update_coeff(self):
      idx = self.get_index(param='beta')
      p_mu = map(self.sub_spatial_array, idx)
      t_mu = map(self.sub_temporal_array, idx)
      self.coeff = [*map(self.ksi_func, p_mu, t_mu)]
  \<close>
  The two inner maps are lazy: window by window, the spatial rows, the temporal rows, then
  the score.
\<close>

definition score_at ::
  "(npfloat list \<Rightarrow> npfloat list \<Rightarrow> pyerror + npfloat) \<Rightarrow> FastStray \<Rightarrow> int list \<Rightarrow>
   pyerror + npfloat" where
  "score_at corr self index =
     bindE (sub_spatial_array self index) (\<lambda>pp.
     bindE (sub_temporal_array self index) (\<lambda>tt. ksi_func corr pp tt))"

definition update_coeff ::
  "(npfloat list \<Rightarrow> npfloat list \<Rightarrow> pyerror + npfloat) \<Rightarrow> FastStray \<Rightarrow> pyerror + FastStray" where
  "update_coeff corr self =
     bindE (get_index self ''beta'') (\<lambda>idx.
     bindE (mapE (score_at corr self) idx) (\<lambda>c. Inr (self\<lparr>coeff := Some c\<rparr>)))"

text \<open>
  \<^verbatim>\<open>
  def sub_coeff(self, index):
      return max(map(self.coeff.__getitem__, index))

  def update_max_coeff(self):
      idx = self.get_index(param='gamma')
      self.max_coeff = [*map(self.sub_coeff, idx)]
  \<close>
\<close>

definition sub_coeff :: "FastStray \<Rightarrow> int list \<Rightarrow> pyerror + npfloat" where
  "sub_coeff self index =
     bindE (attr (coeff self)) (\<lambda>c. bindE (take_rows c index) pymax)"

definition update_max_coeff :: "FastStray \<Rightarrow> pyerror + FastStray" where
  "update_max_coeff self =
     bindE (get_index self ''gamma'') (\<lambda>idx.
     bindE (mapE (sub_coeff self) idx) (\<lambda>m. Inr (self\<lparr>max_coeff := Some m\<rparr>)))"

text \<open>
  \<^verbatim>\<open>
  def simplified_trajectory(self):
      compress_index = np.where(np.array(self.max_coeff) == np.array(self.coeff))[0]
      self.simplified_spatial_position = self.filtering_spatial_position[compress_index,:]
      self.simplified_temporal_position = self.filtering_temporal_position[compress_index,:]
  \<close>
  The two lists have one length whenever both come from \<open>update_coeff\<close> and
  \<open>update_max_coeff\<close> on one \<open>sample_size\<close>; what numpy does with two different
  lengths (it broadcasts, or refuses) is reduced to \<^verbatim>\<open>ValueError\<close>.
\<close>

definition where_equal :: "npfloat list \<Rightarrow> npfloat list \<Rightarrow> int list" where
  "where_equal m c = map int (filter (\<lambda>i. feq (m ! i) (c ! i)) [0..<length m])"

definition simplified_trajectory :: "FastStray \<Rightarrow> pyerror + FastStray" where
  "simplified_trajectory self =
     bindE (attr (max_coeff self)) (\<lambda>m.
     bindE (attr (coeff self)) (\<lambda>c.
       if length m \<noteq> length c then Inl ValueError
       else
         (let compress_index = where_equal m c
          in bindE (attr (filtering_spatial_position self)) (\<lambda>fs.
             bindE (take_rows2 fs compress_index) (\<lambda>ss.
             bindE (attr (filtering_temporal_position self)) (\<lambda>ft.
             bindE (take_rows ft compress_index) (\<lambda>st.
             Inr (self\<lparr>simplified_spatial_position := Some ss,
                       simplified_temporal_position := Some st\<rparr>))))))))"

text \<open>
  \<^verbatim>\<open>
  def run(self):
      self.moving_average()
      self.update_coeff()
      self.update_max_coeff()
      self.simplified_trajectory()
  \<close>
\<close>

definition run ::
  "(npfloat list \<Rightarrow> npfloat list \<Rightarrow> pyerror + npfloat) \<Rightarrow> FastStray \<Rightarrow> pyerror + FastStray" where
  "run corr self =
     bindE (moving_average self) (\<lambda>s1.
     bindE (update_coeff corr s1) (\<lambda>s2.
     bindE (update_max_coeff s2) simplified_trajectory))"

text \<open>
  \<^verbatim>\<open>
  def compression_rate(self):
      return 1. - (len(self.simplified_temporal_position) / len(self.temporal_position))
  \<close>
  The quotient of two Python integers: a zero divisor raises \<^verbatim>\<open>ZeroDivisionError\<close>.
\<close>

definition compression_rate :: "FastStray \<Rightarrow> pyerror + npfloat" where
  "compression_rate self =
     bindE (attr (simplified_temporal_position self)) (\<lambda>s.
     bindE (attr (temporal_position self)) (\<lambda>t.
       if length t = 0 then Inl ZeroDivisionError
       else Inr (Fin (1 - real (length s) / real (length t)))))"

text \<open>The object as the constructor leaves it.\<close>

definition new_FastStray ::
  "(string \<rightharpoonup> int) \<Rightarrow> (npfloat \<times> npfloat \<times> npfloat) list \<Rightarrow> int \<Rightarrow> FastStray" where
  "new_FastStray ps pos n =
     \<lparr>params = ps, position = pos, sample_size = n,
      spatial_position = None, temporal_position = None,
      filtering_spatial_position = None, filtering_temporal_position = None,
      coeff = None, max_coeff = None,
      simplified_spatial_position = None, simplified_temporal_position = None\<rparr>"

subsection \<open>The sequences of the specification\<close>

text \<open>
  The rows of a sequence over the window of centre \<open>i\<close> and half-width \<open>w\<close>, the
  length of the sequence being the trajectory length.
\<close>

definition window_rows :: "'a list \<Rightarrow> nat \<Rightarrow> int \<Rightarrow> 'a list" where
  "window_rows xs i w = map (\<lambda>j. xs ! nat j) (get_params_idx (int i) w (int (length xs)))"

definition spatial_of :: "(npfloat \<times> npfloat \<times> npfloat) list \<Rightarrow> (npfloat \<times> npfloat) list" where
  "spatial_of pos = map (\<lambda>(x, y, t). (x, y)) pos"

definition timestamps_of :: "(npfloat \<times> npfloat \<times> npfloat) list \<Rightarrow> npfloat list" where
  "timestamps_of pos = map (\<lambda>(x, y, t). t) pos"

text \<open>
  SmoothedTrajectory: entry \<open>i\<close> is the mean of the spatial coordinates over the window of
  half-width \<open>alpha\<close> centred at \<open>i\<close>.
\<close>

definition smoothed_trajectory ::
  "(npfloat \<times> npfloat \<times> npfloat) list \<Rightarrow> int \<Rightarrow> (npfloat \<times> npfloat) list" where
  "smoothed_trajectory pos alpha =
     map (\<lambda>i. mean_rows (window_rows (spatial_of pos) i alpha)) [0..<length pos]"

text \<open>The arithmetic mean of real numbers.\<close>

definition arithmetic_mean :: "real list \<Rightarrow> real" where
  "arithmetic_mean rs = sum_list rs / real (length rs)"

text \<open>
  The order \<open>a \<le> b\<close> of the scores, and the maximum of a list of scores: a member that no
  other member exceeds.
\<close>

definition fle :: "npfloat \<Rightarrow> npfloat \<Rightarrow> bool" where
  "fle a b = (fgt b a \<or> feq a b)"

definition is_maximum :: "npfloat \<Rightarrow> npfloat list \<Rightarrow> bool" where
  "is_maximum m vs = (m \<in> set vs \<and> list_all (\<lambda>u. fle u m) vs)"

text \<open>
  CompressedTrajectory: the indices whose score equals the maximum score of their window of
  half-width \<open>gamma\<close>, in ascending order.
\<close>

definition kept_indices :: "npfloat list \<Rightarrow> int \<Rightarrow> nat list" where
  "kept_indices c gamma =
     filter (\<lambda>i. is_maximum (c ! i) (window_rows c i gamma)) [0..<length c]"

text \<open>What \<open>pymax\<close> returns on a list with a first item.\<close>

definition py_max_of :: "npfloat list \<Rightarrow> npfloat" where
  "py_max_of vs = pymax_from (hd vs) (tl vs)"

text \<open>The indices that \<open>simplified_trajectory\<close> selects from the scores \<open>c\<close>.\<close>

definition selected_indices :: "npfloat list \<Rightarrow> int \<Rightarrow> nat list" where
  "selected_indices c gamma =
     filter (\<lambda>i. feq (py_max_of (window_rows c i gamma)) (c ! i)) [0..<length c]"

text \<open>A list of reals minus its mean.\<close>

definition centred :: "real list \<Rightarrow> real list" where
  "centred x = map (\<lambda>v. v - sum_list x / real (length x)) x"

subsection \<open>Sample objects\<close>

definition settings :: "int \<Rightarrow> int \<Rightarrow> int \<Rightarrow> string \<rightharpoonup> int" where
  "settings a b g = [''alpha'' \<mapsto> a, ''beta'' \<mapsto> b, ''gamma'' \<mapsto> g]"

text \<open>Four samples on a line: \<open>x = t\<close> and \<open>y = 2 t + 1\<close>.\<close>

definition line4 :: "(npfloat \<times> npfloat \<times> npfloat) list" where
  "line4 = [(Fin 0, Fin 1, Fin 0), (Fin 1, Fin 3, Fin 1), (Fin 2, Fin 5, Fin 2), (Fin 3, Fin 7, Fin 3)]"

definition line4_object :: FastStray where
  "line4_object = new_FastStray (settings 1 2 1) line4 4"

text \<open>The same object after smoothing, and after scoring with \<open>pearsonr\<close>.\<close>

definition line4_smoothed :: FastStray where
  "line4_smoothed = line4_object
     \<lparr>spatial_position := Some [(Fin 0, Fin 1), (Fin 1, Fin 3), (Fin 2, Fin 5), (Fin 3, Fin 7)],
      temporal_position := Some [Fin 0, Fin 1, Fin 2, Fin 3],
      filtering_spatial_position :=
        Some [(Fin 0, Fin 1), (Fin (1 / 2), Fin 2), (Fin (3 / 2), Fin 4), (Fin (5 / 2), Fin 6)],
      filtering_temporal_position := Some [Fin 0, Fin 1, Fin 2, Fin 3]\<rparr>"

definition line4_scores :: "npfloat list" where
  "line4_scores = [Fin 2, Fin (56 / 27), Fin (590 / 289), Fin 2]"

definition line4_scored :: FastStray where
  "line4_scored = line4_smoothed\<lparr>coeff := Some line4_scores\<rparr>"

definition line4_compressed :: FastStray where
  "line4_compressed = line4_scored
     \<lparr>max_coeff := Some [Fin 2, Fin (56 / 27), Fin (56 / 27), Fin (590 / 289)],
      simplified_spatial_position := Some [(Fin 0, Fin 1), (Fin (1 / 2), Fin 2)],
      simplified_temporal_position := Some [Fin 0, Fin 1]\<rparr>"

text \<open>Two samples on the same line.\<close>

definition pair2 :: "(npfloat \<times> npfloat \<times> npfloat) list" where
  "pair2 = [(Fin 0, Fin 1, Fin 0), (Fin 1, Fin 3, Fin 1)]"

definition pair2_object :: FastStray where
  "pair2_object = new_FastStray (settings 1 2 1) pair2 2"

definition pair2_smoothed :: FastStray where
  "pair2_smoothed = pair2_object
     \<lparr>spatial_position := Some [(Fin 0, Fin 1), (Fin 1, Fin 3)],
      temporal_position := Some [Fin 0, Fin 1],
      filtering_spatial_position := Some [(Fin 0, Fin 1), (Fin (1 / 2), Fin 2)],
      filtering_temporal_position := Some [Fin 0, Fin 1]\<rparr>"

definition pair2_scored :: FastStray where
  "pair2_scored = pair2_smoothed\<lparr>coeff := Some [Fin 2, Fin 2]\<rparr>"

text \<open>The four samples again, to be smoothed with half-width 0.\<close>

definition line4_unsmoothed :: FastStray where
  "line4_unsmoothed = new_FastStray (settings 0 2 1) line4 4"

definition line4_nan :: FastStray where
  "line4_nan = line4_unsmoothed
     \<lparr>spatial_position := Some [(Fin 0, Fin 1), (Fin 1, Fin 3), (Fin 2, Fin 5), (Fin 3, Fin 7)],
      temporal_position := Some [Fin 0, Fin 1, Fin 2, Fin 3],
      filtering_spatial_position := Some [(NaN, NaN), (NaN, NaN), (NaN, NaN), (NaN, NaN)],
      filtering_temporal_position := Some [Fin 0, Fin 1, Fin 2, Fin 3]\<rparr>"

text \<open>An object without samples, and one whose temporal sequences are empty.\<close>

definition empty_object :: FastStray where
  "empty_object = new_FastStray (settings 1 2 1) [] 0"

definition empty_compressed :: FastStray where
  "empty_compressed = empty_object
     \<lparr>temporal_position := Some [], simplified_temporal_position := Some []\<rparr>"

text \<open>Three samples at one place.\<close>

definition still3 :: "(npfloat \<times> npfloat \<times> npfloat) list" where
  "still3 = [(Fin 1, Fin 1, Fin 0), (Fin 1, Fin 1, Fin 1), (Fin 1, Fin 1, Fin 2)]"

definition still3_object :: FastStray where
  "still3_object = new_FastStray (settings 1 2 1) still3 3"

definition still3_compressed :: FastStray where
  "still3_compressed = still3_object
     \<lparr>spatial_position := Some [(Fin 1, Fin 1), (Fin 1, Fin 1), (Fin 1, Fin 1)],
      temporal_position := Some [Fin 0, Fin 1, Fin 2],
      filtering_spatial_position := Some [(Fin 1, Fin 1), (Fin 1, Fin 1), (Fin 1, Fin 1)],
      filtering_temporal_position := Some [Fin 0, Fin 1, Fin 2],
      coeff := Some [NaN, NaN, NaN],
      max_coeff := Some [NaN, NaN, NaN],
      simplified_spatial_position := Some [],
      simplified_temporal_position := Some []\<rparr>"

text \<open>
  Seven samples heading north, the longitude constant from the second sample to the sixth;
  the object is given the half-width \<open>g\<close> of the selection.
\<close>

definition north7 :: "(npfloat \<times> npfloat \<times> npfloat) list" where
  "north7 = [(Fin 0, Fin 0, Fin 0), (Fin 1, Fin 1, Fin 1), (Fin 1, Fin 2, Fin 2),
             (Fin 1, Fin 3, Fin 3), (Fin 1, Fin 4, Fin 4), (Fin 1, Fin 5, Fin 5),
             (Fin 2, Fin 7, Fin 6)]"

definition north7_object :: "int \<Rightarrow> FastStray" where
  "north7_object g = new_FastStray (settings 1 2 g) north7 7"

definition north7_smoothed :: "int \<Rightarrow> FastStray" where
  "north7_smoothed g = (north7_object g)
     \<lparr>spatial_position :=
        Some [(Fin 0, Fin 0), (Fin 1, Fin 1), (Fin 1, Fin 2), (Fin 1, Fin 3), (Fin 1, Fin 4),
              (Fin 1, Fin 5), (Fin 2, Fin 7)],
      temporal_position := Some [Fin 0, Fin 1, Fin 2, Fin 3, Fin 4, Fin 5, Fin 6],
      filtering_spatial_position :=
        Some [(Fin 0, Fin 0), (Fin (1 / 2), Fin (1 / 2)), (Fin 1, Fin (3 / 2)),
              (Fin 1, Fin (5 / 2)), (Fin 1, Fin (7 / 2)), (Fin 1, Fin (9 / 2)),
              (Fin (3 / 2), Fin 6)],
      filtering_temporal_position := Some [Fin 0, Fin 1, Fin 2, Fin 3, Fin 4, Fin 5, Fin 6]\<rparr>"

definition north7_scores :: "npfloat list" where
  "north7_scores =
     [Fin 2, Fin (55 / 27), Fin (30350 / 14161), Fin (8 / 3), NaN, Fin (4250 / 1587),
      Fin (176 / 75)]"

definition north7_scored :: "int \<Rightarrow> FastStray" where
  "north7_scored g = (north7_smoothed g)\<lparr>coeff := Some north7_scores\<rparr>"

definition north7_compressed1 :: FastStray where
  "north7_compressed1 = (north7_scored 1)
     \<lparr>max_coeff :=
        Some [Fin 2, Fin (55 / 27), Fin (30350 / 14161), Fin (8 / 3), Fin (8 / 3), NaN,
              Fin (4250 / 1587)],
      simplified_spatial_position :=
        Some [(Fin 0, Fin 0), (Fin (1 / 2), Fin (1 / 2)), (Fin 1, Fin (3 / 2)),
              (Fin 1, Fin (5 / 2))],
      simplified_temporal_position := Some [Fin 0, Fin 1, Fin 2, Fin 3]\<rparr>"

definition north7_compressed2 :: FastStray where
  "north7_compressed2 = (north7_scored 2)
     \<lparr>max_coeff :=
        Some [Fin (55 / 27), Fin (30350 / 14161), Fin (8 / 3), Fin (8 / 3), Fin (4250 / 1587),
              Fin (4250 / 1587), NaN],
      simplified_spatial_position := Some [(Fin 1, Fin (5 / 2)), (Fin 1, Fin (9 / 2))],
      simplified_temporal_position := Some [Fin 3, Fin 5]\<rparr>"

text \<open>The four samples on a line with the scoring half-width 1, and a single sample.\<close>

definition line4_narrow :: FastStray where
  "line4_narrow = new_FastStray (settings 1 1 1) line4 4"

definition line4_narrow_smoothed :: FastStray where
  "line4_narrow_smoothed = line4_narrow
     \<lparr>spatial_position := Some [(Fin 0, Fin 1), (Fin 1, Fin 3), (Fin 2, Fin 5), (Fin 3, Fin 7)],
      temporal_position := Some [Fin 0, Fin 1, Fin 2, Fin 3],
      filtering_spatial_position :=
        Some [(Fin 0, Fin 1), (Fin (1 / 2), Fin 2), (Fin (3 / 2), Fin 4), (Fin (5 / 2), Fin 6)],
      filtering_temporal_position := Some [Fin 0, Fin 1, Fin 2, Fin 3]\<rparr>"

definition single1 :: "(npfloat \<times> npfloat \<times> npfloat) list" where
  "single1 = [(Fin 0, Fin 1, Fin 0)]"

definition single1_object :: FastStray where
  "single1_object = new_FastStray (settings 1 2 1) single1 1"

definition single1_smoothed :: FastStray where
  "single1_smoothed = single1_object
     \<lparr>spatial_position := Some [(Fin 0, Fin 1)],
      temporal_position := Some [Fin 0],
      filtering_spatial_position := Some [(Fin 0, Fin 1)],
      filtering_temporal_position := Some [Fin 0]\<rparr>"

section \<open>Properties\<close>

subsection \<open>Windows\<close>

lemma arange_upto: "arange a b = [a..b - 1]"
proof -
  have "map (\<lambda>k. a + int k) [0..<n] = [a..a + int n - 1]" for n
  proof (induction n)
    case 0
    show ?case by simp
  next
    case (Suc n)
    have "[a..a + int (Suc n) - 1] = [a..a + int n - 1] @ [a + int n]"
      using upto_rec2 [of a "a + int n"] by (simp add: algebra_simps)
    with Suc show ?case by simp
  qed
  from this [of "nat (b - a)"] show ?thesis
    by (cases "a \<le> b") (simp_all add: arange_def)
qed

lemma set_arange: "set (arange a b) = {j. a \<le> j \<and> j < b}"
  by (auto simp: arange_upto)

lemma length_arange: "length (arange a b) = nat (b - a)"
  by (simp add: arange_def)

lemma set_get_params_idx:
  "set (get_params_idx i w n) = {j. 0 \<le> j \<and> i - w \<le> j \<and> j < i + w \<and> j < n}"
  by (auto simp: get_params_idx_def Let_def set_arange)

text \<open>
  Claim C2. For a centre \<open>c\<close> in \<open>[0, n)\<close>, a half-width \<open>h \<ge> 0\<close> and a length
  \<open>n \<ge> 1\<close>, the window is the ascending run of the integers from \<open>max 0 (c - h)\<close> up to,
  and without, \<open>min (c + h) n\<close>; it lies inside \<open>[0, n)\<close>, and the window of centre 5 and
  half-width 3 in a length of 100 is 2, ..., 7, without 8.
\<close>

theorem get_params_idx_window:
  assumes "0 \<le> c" and "c < n" and "0 \<le> h" and "1 \<le> n"
  shows "get_params_idx c h n = [max 0 (c - h)..min (c + h) n - 1]
    \<and> sorted_wrt (<) (get_params_idx c h n)
    \<and> set (get_params_idx c h n) = {j. max 0 (c - h) \<le> j \<and> j < min (c + h) n}
    \<and> set (get_params_idx c h n) \<subseteq> {j. 0 \<le> j \<and> j < n}
    \<and> get_params_idx 5 3 100 = [2, 3, 4, 5, 6, 7]
    \<and> 8 \<notin> set (get_params_idx 5 3 100)"
proof -
  have eq: "get_params_idx c h n = [max 0 (c - h)..min (c + h) n - 1]"
    by (simp add: get_params_idx_def Let_def arange_upto)
  have srt: "sorted_wrt (<) (get_params_idx c h n)"
    unfolding eq by (rule sorted_wrt_upto)
  have st: "set (get_params_idx c h n) = {j. max 0 (c - h) \<le> j \<and> j < min (c + h) n}"
    by (auto simp: set_get_params_idx)
  have sub: "set (get_params_idx c h n) \<subseteq> {j. 0 \<le> j \<and> j < n}"
    by (auto simp: set_get_params_idx)
  have ex: "get_params_idx 5 3 100 = [2, 3, 4, 5, 6, 7]"
    by (simp add: get_params_idx_def Let_def arange_def upt_rec)
  have "8 \<notin> set (get_params_idx 5 3 100)"
    unfolding ex by simp
  with eq srt st sub ex show ?thesis by blast
qed

theorem get_params_idx_window_witness:
  "(0::int) \<le> 0 \<and> (0::int) < 4 \<and> (0::int) \<le> 2 \<and> (1::int) \<le> 4
    \<and> get_params_idx 0 2 4 = [0, 1] \<and> get_params_idx 3 2 4 = [1, 2, 3]"
proof -
  have a: "get_params_idx 0 2 4 = [max 0 (0 - 2)..min (0 + 2) 4 - 1]"
    using get_params_idx_window [of 0 4 2] by simp
  have b: "get_params_idx 3 2 4 = [max 0 (3 - 2)..min (3 + 2) 4 - 1]"
    using get_params_idx_window [of 3 4 2] by simp
  have "[0..1::int] = [0, 1]" and "[1..3::int] = [1, 2, 3]"
    by (simp_all add: upto_rec1)
  with a b show ?thesis by simp
qed

subsection \<open>Exceptions, rows and windows\<close>

lemma mapE_Inr: "(\<And>x. x \<in> set xs \<Longrightarrow> f x = Inr (g x)) \<Longrightarrow> mapE f xs = Inr (map g xs)"
  by (induction xs) simp_all

lemma mapE_length: "mapE f xs = Inr ys \<Longrightarrow> length ys = length xs"
  by (induction xs arbitrary: ys) (auto split: sum.splits)

lemma take_rows_in_range:
  assumes "\<And>j. j \<in> set index \<Longrightarrow> 0 \<le> j \<and> j < int (length xs)"
  shows "take_rows xs index = Inr (map (\<lambda>j. xs ! nat j) index)"
proof -
  have "list_all (\<lambda>j. - int (length xs) \<le> j \<and> j < int (length xs)) index"
    using assms by (fastforce simp: list_all_iff)
  moreover have "map (\<lambda>j. xs ! nat (if j < 0 then j + int (length xs) else j)) index
      = map (\<lambda>j. xs ! nat j) index"
    using assms by (intro map_cong) force+
  ultimately show ?thesis by (simp add: take_rows_def Let_def)
qed

lemma take_rows_nats:
  assumes "\<And>i. i \<in> set K \<Longrightarrow> i < length xs"
  shows "take_rows xs (map int K) = Inr (map (\<lambda>i. xs ! i) K)"
proof -
  have "take_rows xs (map int K) = Inr (map (\<lambda>j. xs ! nat j) (map int K))"
    by (rule take_rows_in_range) (use assms in auto)
  then show ?thesis by (simp add: comp_def)
qed

lemma arange_0: "arange 0 n = map int [0..<nat n]"
  by (simp add: arange_def)

lemma get_index_Some:
  "params s p = Some v \<Longrightarrow>
   get_index s p
     = Inr (map (\<lambda>i. get_params_idx (int i) v (sample_size s)) [0..<nat (sample_size s)])"
  by (simp add: get_index_def arange_0 comp_def)

lemma window_in_range: "j \<in> set (get_params_idx i w n) \<Longrightarrow> 0 \<le> j \<and> j < n"
  by (simp add: set_get_params_idx)

lemma window_contains_centre:
  "0 \<le> i \<Longrightarrow> i < n \<Longrightarrow> 1 \<le> w \<Longrightarrow> i \<in> set (get_params_idx i w n)"
  by (simp add: set_get_params_idx)

lemma window_rows_contains_centre:
  assumes "i < length xs" and "1 \<le> w"
  shows "xs ! i \<in> set (window_rows xs i w)"
proof -
  have "int i \<in> set (get_params_idx (int i) w (int (length xs)))"
    using assms by (intro window_contains_centre) simp_all
  then have "xs ! nat (int i)
      \<in> (\<lambda>j. xs ! nat j) ` set (get_params_idx (int i) w (int (length xs)))"
    by (rule imageI)
  then show ?thesis by (simp add: window_rows_def)
qed

lemma set_window_rows_subset: "set (window_rows xs i w) \<subseteq> set xs"
proof
  fix v assume "v \<in> set (window_rows xs i w)"
  then obtain j where j: "j \<in> set (get_params_idx (int i) w (int (length xs)))"
    and v: "v = xs ! nat j"
    by (auto simp: window_rows_def)
  from j have "0 \<le> j \<and> j < int (length xs)" by (rule window_in_range)
  then have "nat j < length xs" by linarith
  with v show "v \<in> set xs" by simp
qed

lemma take_rows_window:
  "take_rows xs (get_params_idx (int i) w (int (length xs))) = Inr (window_rows xs i w)"
  unfolding window_rows_def by (rule take_rows_in_range) (rule window_in_range)

subsection \<open>Means\<close>

lemma foldl_fadd_Fin: "foldl fadd (Fin a) (map Fin rs) = Fin (a + sum_list rs)"
  by (induction rs arbitrary: a) (simp_all add: add.assoc)

lemma np_mean_Fin: "rs \<noteq> [] \<Longrightarrow> np_mean (map Fin rs) = Fin (arithmetic_mean rs)"
  by (simp add: np_mean_def foldl_fadd_Fin arithmetic_mean_def)

lemma np_mean_Nil: "np_mean [] = NaN"
  by (simp add: np_mean_def)

subsection \<open>Smoothing\<close>

lemma moving_average_result:
  assumes n: "sample_size s = int (length (position s))"
    and a: "params s ''alpha'' = Some alpha"
  shows "moving_average s
    = Inr (s\<lparr>spatial_position := Some (spatial_of (position s)),
              temporal_position := Some (timestamps_of (position s)),
              filtering_spatial_position := Some (smoothed_trajectory (position s) alpha),
              filtering_temporal_position := Some (timestamps_of (position s))\<rparr>)"
proof -
  let ?sp = "spatial_of (position s)"
  let ?tp = "timestamps_of (position s)"
  let ?s1 = "s\<lparr>spatial_position := Some ?sp, temporal_position := Some ?tp\<rparr>"
  let ?n = "length (position s)"
  let ?g = "\<lambda>index. mean_rows (map (\<lambda>j. ?sp ! nat j) index)"
  let ?idx = "map (\<lambda>i. get_params_idx (int i) alpha (int ?n)) [0..<?n]"
  have len: "length ?sp = ?n" by (simp add: spatial_of_def)
  have gi: "get_index ?s1 ''alpha'' = Inr ?idx"
    using get_index_Some [of ?s1 "''alpha''" alpha] a n by simp
  have mp: "mean_position ?s1 index = Inr (?g index)" if "index \<in> set ?idx" for index
  proof -
    from that obtain i where "index = get_params_idx (int i) alpha (int ?n)" by auto
    then have "\<And>j. j \<in> set index \<Longrightarrow> 0 \<le> j \<and> j < int (length ?sp)"
      using window_in_range len by simp
    then have "take_rows ?sp index = Inr (map (\<lambda>j. ?sp ! nat j) index)"
      by (rule take_rows_in_range)
    then show ?thesis by (simp add: mean_position_def bindE_def attr_def)
  qed
  have "mapE (mean_position ?s1) ?idx = Inr (map ?g ?idx)"
    by (rule mapE_Inr) (rule mp)
  moreover have "map ?g ?idx = smoothed_trajectory (position s) alpha"
    by (simp add: smoothed_trajectory_def window_rows_def comp_def len)
  ultimately have "mapE (mean_position ?s1) ?idx = Inr (smoothed_trajectory (position s) alpha)"
    by simp
  with gi show ?thesis
    by (simp add: moving_average_def Let_def bindE_def spatial_of_def timestamps_of_def)
qed

lemma length_smoothed_trajectory: "length (smoothed_trajectory pos alpha) = length pos"
  by (simp add: smoothed_trajectory_def)

text \<open>
  Claim C3. For a trajectory of length \<open>n \<ge> 1\<close> and any \<open>alpha\<close>, smoothing returns a
  spatial sequence of the same length whose entry \<open>i\<close> is, coordinate by coordinate, the
  mean of the input spatial coordinates over the window of centre \<open>i\<close> and half-width
  \<open>alpha\<close> (the arithmetic mean, for a window of finite values that is not empty), and
  it returns the temporal sequence unchanged.
\<close>

theorem moving_average_smooths:
  assumes "sample_size s = int (length (position s))"
    and "position s \<noteq> []"
    and "params s ''alpha'' = Some alpha"
  shows "\<exists>s' fs. moving_average s = Inr s'
    \<and> filtering_spatial_position s' = Some fs
    \<and> length fs = length (position s)
    \<and> (\<forall>i < length (position s).
          fs ! i = (np_mean (map fst (window_rows (spatial_of (position s)) i alpha)),
                    np_mean (map snd (window_rows (spatial_of (position s)) i alpha))))
    \<and> (\<forall>rs. rs \<noteq> [] \<longrightarrow> np_mean (map Fin rs) = Fin (arithmetic_mean rs))
    \<and> filtering_temporal_position s' = Some (timestamps_of (position s))
    \<and> temporal_position s' = Some (timestamps_of (position s))"
proof -
  have "\<forall>i < length (position s).
      smoothed_trajectory (position s) alpha ! i
        = (np_mean (map fst (window_rows (spatial_of (position s)) i alpha)),
           np_mean (map snd (window_rows (spatial_of (position s)) i alpha)))"
    by (simp add: smoothed_trajectory_def mean_rows_def)
  moreover have "\<forall>rs. rs \<noteq> [] \<longrightarrow> np_mean (map Fin rs) = Fin (arithmetic_mean rs)"
    by (simp add: np_mean_Fin)
  ultimately show ?thesis
    using moving_average_result [OF assms(1,3)] by (simp add: length_smoothed_trajectory)
qed

lemmas eval_defs = get_index_def arange_def get_params_idx_def upt_rec
  mean_position_def take_rows_def take_rows2_def mean_rows_def np_mean_def bindE_def attr_def
  Let_def new_FastStray_def settings_def window_rows_def spatial_of_def timestamps_of_def

lemma moving_average_line4: "moving_average line4_object = Inr line4_smoothed"
  by (simp add: moving_average_def eval_defs line4_def line4_object_def line4_smoothed_def)

theorem moving_average_smooths_witness:
  "sample_size line4_object
      = int (length (position line4_object))
    \<and> position line4_object \<noteq> []
    \<and> params line4_object ''alpha'' = Some 1
    \<and> (\<exists>s' fs. moving_average line4_object = Inr s'
          \<and> filtering_spatial_position s' = Some fs
          \<and> fs ! 1 = (Fin (1 / 2), Fin 2)
          \<and> filtering_temporal_position s' = Some [Fin 0, Fin 1, Fin 2, Fin 3])"
proof -
  let ?s = "line4_object"
  have h1: "sample_size ?s = int (length (position ?s))"
    by (simp add: line4_object_def new_FastStray_def line4_def)
  have h2: "position ?s \<noteq> []" by (simp add: line4_object_def new_FastStray_def line4_def)
  have h3: "params ?s ''alpha'' = Some 1" by (simp add: line4_object_def new_FastStray_def settings_def)
  from moving_average_smooths [OF h1 h2 h3]
  obtain s' fs where r: "moving_average ?s = Inr s'"
    and fs: "filtering_spatial_position s' = Some fs"
    and ft: "filtering_temporal_position s' = Some (timestamps_of (position ?s))"
    by blast
  from r fs have "fs ! 1 = (Fin (1 / 2), Fin 2)"
    by (auto simp: moving_average_line4 line4_smoothed_def)
  moreover have "timestamps_of (position ?s) = [Fin 0, Fin 1, Fin 2, Fin 3]"
    by (simp add: line4_object_def new_FastStray_def line4_def timestamps_of_def)
  ultimately show ?thesis using h1 h2 h3 r fs ft by auto
qed

subsection \<open>The scorer\<close>

lemma mapE_map_Inr:
  "(\<And>x. x \<in> set xs \<Longrightarrow> f (h x) = Inr (g x)) \<Longrightarrow> mapE f (map h xs) = Inr (map g xs)"
  by (induction xs) simp_all

lemma update_coeff_result:
  assumes fs: "filtering_spatial_position s = Some fs"
    and ft: "filtering_temporal_position s = Some ft"
    and len: "length ft = length fs" and n: "sample_size s = int (length fs)"
    and ne: "fs \<noteq> []" and b: "params s ''beta'' = Some beta"
    and rx: "\<And>i. i < length fs \<Longrightarrow>
      corr (map fst (window_rows fs i beta)) (window_rows ft i beta) = Inr (rx i)"
    and ry: "\<And>i. i < length fs \<Longrightarrow>
      corr (map snd (window_rows fs i beta)) (window_rows ft i beta) = Inr (ry i)"
  shows "update_coeff corr s
    = Inr (s\<lparr>coeff := Some (map (\<lambda>i. fadd (fdiv (Fin 1) (fsq (rx i))) (fdiv (Fin 1) (fsq (ry i))))
                            [0..<length fs])\<rparr>)"
proof -
  let ?w = "\<lambda>i. get_params_idx (int i) beta (int (length fs))"
  let ?score = "\<lambda>i. fadd (fdiv (Fin 1) (fsq (rx i))) (fdiv (Fin 1) (fsq (ry i)))"
  have gi: "get_index s ''beta'' = Inr (map ?w [0..<length fs])"
    using get_index_Some [OF b] n by simp
  have "score_at corr s (?w i) = Inr (?score i)" if "i \<in> set [0..<length fs]" for i
  proof -
    from that have i: "i < length fs" by simp
    have p: "sub_spatial_array s (?w i) = Inr (window_rows fs i beta)"
      using fs ne by (simp add: sub_spatial_array_def bindE_def attr_def take_rows2_def take_rows_window)
    have "take_rows ft (get_params_idx (int i) beta (int (length ft))) = Inr (window_rows ft i beta)"
      by (rule take_rows_window)
    then have t: "sub_temporal_array s (?w i) = Inr (window_rows ft i beta)"
      using ft len by (simp add: sub_temporal_array_def bindE_def attr_def)
    show ?thesis
      by (simp add: score_at_def p t bindE_def ksi_func_def Let_def rx [OF i] ry [OF i])
  qed
  then have "mapE (score_at corr s) (map ?w [0..<length fs]) = Inr (map ?score [0..<length fs])"
    by (rule mapE_map_Inr)
  with gi show ?thesis by (simp add: update_coeff_def bindE_def)
qed

lemma update_coeff_shape:
  assumes "update_coeff corr s = Inr s2"
  shows "\<exists>c. s2 = s\<lparr>coeff := Some c\<rparr> \<and> length c = nat (sample_size s)"
proof -
  from assms obtain idx where gi: "get_index s ''beta'' = Inr idx"
    by (auto simp: update_coeff_def bindE_def split: sum.splits)
  with assms obtain c where m: "mapE (score_at corr s) idx = Inr c" and s2: "s2 = s\<lparr>coeff := Some c\<rparr>"
    by (auto simp: update_coeff_def bindE_def split: sum.splits)
  from gi have "length idx = nat (sample_size s)"
    by (auto simp: get_index_def length_arange split: option.splits)
  with mapE_length [OF m] have "length c = nat (sample_size s)" by simp
  with s2 show ?thesis by blast
qed

subsection \<open>Scores\<close>

text \<open>
  Claim C4, amended. For a trajectory of length \<open>n \<ge> 1\<close> and a \<open>beta\<close> such that
  the correlation function returns on every window, and for any index \<open>i\<close>, the score
  of \<open>i\<close> is the sum over the two spatial axes of \<open>1 / r\<^sup>2\<close>, where \<open>r\<close>
  is what the correlation function returns for that axis of the smoothed spatial sequence
  and the raw temporal sequence, both restricted to the window of centre \<open>i\<close> and
  half-width \<open>beta\<close>. The correlation function is any \<open>corr\<close>; \<open>pearsonr\<close> raises
  on a window of fewer than two samples.
\<close>

theorem update_coeff_scores:
  assumes n: "sample_size s = int (length (position s))"
    and ne: "position s \<noteq> []"
    and a: "params s ''alpha'' = Some alpha"
    and b: "params s ''beta'' = Some beta"
    and ok: "\<forall>i < length (position s).
      (\<exists>r. corr (map fst (window_rows (smoothed_trajectory (position s) alpha) i beta))
                 (window_rows (timestamps_of (position s)) i beta) = Inr r)
      \<and> (\<exists>r. corr (map snd (window_rows (smoothed_trajectory (position s) alpha) i beta))
                 (window_rows (timestamps_of (position s)) i beta) = Inr r)"
  shows "\<exists>s1 s2 c. moving_average s = Inr s1 \<and> update_coeff corr s1 = Inr s2
    \<and> coeff s2 = Some c \<and> length c = length (position s)
    \<and> (\<forall>i < length (position s). \<exists>rx ry.
          corr (map fst (window_rows (smoothed_trajectory (position s) alpha) i beta))
               (window_rows (timestamps_of (position s)) i beta) = Inr rx
          \<and> corr (map snd (window_rows (smoothed_trajectory (position s) alpha) i beta))
               (window_rows (timestamps_of (position s)) i beta) = Inr ry
          \<and> c ! i = fadd (fdiv (Fin 1) (fsq rx)) (fdiv (Fin 1) (fsq ry)))
    \<and> (\<forall>r. r \<noteq> 0 \<longrightarrow> fdiv (Fin 1) (fsq (Fin r)) = Fin (1 / r\<^sup>2))"
proof -
  let ?fs = "smoothed_trajectory (position s) alpha"
  let ?ft = "timestamps_of (position s)"
  let ?n = "length (position s)"
  let ?s1 = "s\<lparr>spatial_position := Some (spatial_of (position s)),
              temporal_position := Some ?ft,
              filtering_spatial_position := Some ?fs,
              filtering_temporal_position := Some ?ft\<rparr>"
  define rx where "rx i = (case corr (map fst (window_rows ?fs i beta)) (window_rows ?ft i beta)
                           of Inr r \<Rightarrow> r | Inl e \<Rightarrow> NaN)" for i
  define ry where "ry i = (case corr (map snd (window_rows ?fs i beta)) (window_rows ?ft i beta)
                           of Inr r \<Rightarrow> r | Inl e \<Rightarrow> NaN)" for i
  have lfs: "length ?fs = ?n" by (rule length_smoothed_trajectory)
  have lft: "length ?ft = ?n" by (simp add: timestamps_of_def)
  have hx: "corr (map fst (window_rows ?fs i beta)) (window_rows ?ft i beta) = Inr (rx i)"
    if "i < ?n" for i
    using ok that by (auto simp: rx_def)
  have hy: "corr (map snd (window_rows ?fs i beta)) (window_rows ?ft i beta) = Inr (ry i)"
    if "i < ?n" for i
    using ok that by (auto simp: ry_def)
  have ma: "moving_average s = Inr ?s1" by (rule moving_average_result [OF n a])
  let ?c = "map (\<lambda>i. fadd (fdiv (Fin 1) (fsq (rx i))) (fdiv (Fin 1) (fsq (ry i)))) [0..<length ?fs]"
  have uc: "update_coeff corr ?s1 = Inr (?s1\<lparr>coeff := Some ?c\<rparr>)"
  proof (rule update_coeff_result [where fs = ?fs and ft = ?ft and beta = beta])
    show "?fs \<noteq> []" using ne lfs by auto
    show "corr (map fst (window_rows ?fs i beta)) (window_rows ?ft i beta) = Inr (rx i)"
      if "i < length ?fs" for i using hx that lfs by simp
    show "corr (map snd (window_rows ?fs i beta)) (window_rows ?ft i beta) = Inr (ry i)"
      if "i < length ?fs" for i using hy that lfs by simp
  qed (simp_all add: lfs lft n b)
  have "\<forall>i < ?n. \<exists>rx ry.
          corr (map fst (window_rows ?fs i beta)) (window_rows ?ft i beta) = Inr rx
          \<and> corr (map snd (window_rows ?fs i beta)) (window_rows ?ft i beta) = Inr ry
          \<and> ?c ! i = fadd (fdiv (Fin 1) (fsq rx)) (fdiv (Fin 1) (fsq ry))"
    using hx hy lfs by simp
  moreover have "length ?c = ?n" using lfs by simp
  moreover have "coeff (?s1\<lparr>coeff := Some ?c\<rparr>) = Some ?c" by simp
  moreover have "\<forall>r. r \<noteq> 0 \<longrightarrow> fdiv (Fin 1) (fsq (Fin r)) = Fin (1 / r\<^sup>2)" by simp
  ultimately show ?thesis using ma uc by blast
qed

subsection \<open>The correlation coefficient on exact reals\<close>

lemma sum_list_map2_div:
  "sum_list (map2 (*) (map (\<lambda>v. v / a) xs) (map (\<lambda>v. v / b) ys))
    = sum_list (map2 (*) xs ys) / (a * b)" for a b :: real
proof (induction xs arbitrary: ys)
  case Nil
  show ?case by simp
next
  case (Cons x xs)
  show ?case
  proof (cases ys)
    case Nil
    then show ?thesis by simp
  next
    case (Cons y ys')
    with Cons.IH [of ys'] show ?thesis by (simp add: add_divide_distrib)
  qed
qed

lemma clip_power2: "(max (min r 1) (- 1))\<^sup>2 = min (r\<^sup>2) 1" for r :: real
proof -
  consider "r \<le> - 1" | "- 1 < r" "r < 1" | "1 \<le> r" by linarith
  then show ?thesis
  proof cases
    case 1
    then have "1 \<le> r\<^sup>2" using one_le_power [of "- r" 2] by simp
    then have "min (r\<^sup>2) 1 = 1" by (rule min_absorb2)
    moreover have "max (min r 1) (- 1) = - 1" using 1 by simp
    ultimately show ?thesis by simp
  next
    case 2
    then have "\<bar>r\<bar> < 1" by simp
    then have "r\<^sup>2 < 1" using abs_square_less_1 by blast
    then have "min (r\<^sup>2) 1 = r\<^sup>2" by simp
    moreover have "max (min r 1) (- 1) = r" using 2 by simp
    ultimately show ?thesis by simp
  next
    case 3
    then have "1 \<le> r\<^sup>2" using one_le_power [of r 2] by simp
    then have "min (r\<^sup>2) 1 = 1" by (rule min_absorb2)
    moreover have "max (min r 1) (- 1) = 1" using 3 by simp
    ultimately show ?thesis by simp
  qed
qed

lemma sum_list_squares_nonneg: "0 \<le> sum_list (map (\<lambda>v. v\<^sup>2) xs)" for xs :: "real list"
  by (induction xs) simp_all

lemma pearson_real_power2:
  "(pearson_real x y)\<^sup>2
    = min ((sum_list (map2 (*) (centred x) (centred y)))\<^sup>2
            / (sum_list (map (\<lambda>v. v\<^sup>2) (centred x)) * sum_list (map (\<lambda>v. v\<^sup>2) (centred y)))) 1"
proof -
  let ?sx = "sum_list (map (\<lambda>v. v\<^sup>2) (centred x))"
  let ?sy = "sum_list (map (\<lambda>v. v\<^sup>2) (centred y))"
  let ?c = "sum_list (map2 (*) (centred x) (centred y))"
  have "pearson_real x y = max (min (?c / (sqrt ?sx * sqrt ?sy)) 1) (- 1)"
    unfolding pearson_real_def Let_def centred_def [symmetric]
    by (simp only: sum_list_map2_div)
  then have "(pearson_real x y)\<^sup>2 = min ((?c / (sqrt ?sx * sqrt ?sy))\<^sup>2) 1"
    by (simp only: clip_power2)
  also have "(?c / (sqrt ?sx * sqrt ?sy))\<^sup>2 = ?c\<^sup>2 / (?sx * ?sy)"
    using sum_list_squares_nonneg [of "centred x"] sum_list_squares_nonneg [of "centred y"]
    by (simp add: power_divide power_mult_distrib)
  finally show ?thesis .
qed

lemmas corr_defs = pearsonr_def is_constant_def finites_def fsub_def pearson_real_power2
  centred_def power_divide

lemma smoothed_line4:
  "smoothed_trajectory line4 1
    = [(Fin 0, Fin 1), (Fin (1 / 2), Fin 2), (Fin (3 / 2), Fin 4), (Fin (5 / 2), Fin 6)]"
  by (simp add: smoothed_trajectory_def eval_defs line4_def)

lemma timestamps_line4: "timestamps_of line4 = [Fin 0, Fin 1, Fin 2, Fin 3]"
  by (simp add: timestamps_of_def line4_def)

theorem update_coeff_scores_witness:
  "\<exists>s1 s2 c. moving_average line4_object = Inr s1
    \<and> update_coeff pearsonr s1 = Inr s2 \<and> coeff s2 = Some c \<and> length c = 4
    \<and> c ! 0 = Fin 2 \<and> c ! 1 = Fin (56 / 27)"
proof -
  let ?s = "line4_object"
  have pos: "position ?s = line4" by (simp add: line4_object_def new_FastStray_def)
  have h1: "sample_size ?s = int (length (position ?s))"
    by (simp add: line4_object_def new_FastStray_def line4_def)
  have h2: "position ?s \<noteq> []" by (simp add: line4_object_def new_FastStray_def line4_def)
  have h3: "params ?s ''alpha'' = Some 1" by (simp add: line4_object_def new_FastStray_def settings_def)
  have h4: "params ?s ''beta'' = Some 2" by (simp add: line4_object_def new_FastStray_def settings_def)
  have len: "length line4 = Suc (Suc (Suc (Suc 0)))" by (simp add: line4_def)
  have h5: "\<forall>i < length (position ?s).
      (\<exists>r. pearsonr (map fst (window_rows (smoothed_trajectory (position ?s) 1) i 2))
                 (window_rows (timestamps_of (position ?s)) i 2) = Inr r)
      \<and> (\<exists>r. pearsonr (map snd (window_rows (smoothed_trajectory (position ?s) 1) i 2))
                 (window_rows (timestamps_of (position ?s)) i 2) = Inr r)"
    unfolding pos len All_less_Suc smoothed_line4 timestamps_line4
    by (simp add: eval_defs pearsonr_def is_constant_def finites_def)
  from update_coeff_scores [OF h1 h2 h3 h4 h5]
  obtain s1 s2 c where r: "moving_average ?s = Inr s1" "update_coeff pearsonr s1 = Inr s2"
      "coeff s2 = Some c" "length c = length (position ?s)"
    and sc: "\<forall>i < length (position ?s). \<exists>rx ry.
          pearsonr (map fst (window_rows (smoothed_trajectory (position ?s) 1) i 2))
               (window_rows (timestamps_of (position ?s)) i 2) = Inr rx
          \<and> pearsonr (map snd (window_rows (smoothed_trajectory (position ?s) 1) i 2))
               (window_rows (timestamps_of (position ?s)) i 2) = Inr ry
          \<and> c ! i = fadd (fdiv (Fin 1) (fsq rx)) (fdiv (Fin 1) (fsq ry))"
    by blast
  from sc have "c ! 0 = Fin 2"
    unfolding pos len All_less_Suc smoothed_line4 timestamps_line4
    by (simp add: eval_defs corr_defs)
  moreover from sc have "c ! 1 = Fin (56 / 27)"
    unfolding pos len All_less_Suc smoothed_line4 timestamps_line4
    by (simp add: eval_defs corr_defs)
  moreover have "length c = 4" using r(4) by (simp add: line4_object_def new_FastStray_def line4_def)
  ultimately show ?thesis using r by blast
qed

subsection \<open>The maximum of a window\<close>

lemma fgt_irrefl: "\<not> fgt a a"
  by (cases a) simp_all

lemma fgt_antisym:
  "\<not> is_nan a \<Longrightarrow> \<not> is_nan b \<Longrightarrow> \<not> fgt a b \<Longrightarrow> \<not> fgt b a \<Longrightarrow> a = b"
  by (cases a; cases b) (simp_all add: is_nan_def)

lemma feq_iff: "\<not> is_nan a \<Longrightarrow> feq a b = (a = b)"
  by (cases a; cases b) (auto simp: is_nan_def)

lemma fle_iff: "\<not> is_nan a \<Longrightarrow> \<not> is_nan b \<Longrightarrow> fle a b = (\<not> fgt a b)"
  by (cases a; cases b) (auto simp: is_nan_def fle_def)

lemma pymax_from_max:
  "\<forall>v \<in> set (m # xs). \<not> is_nan v \<Longrightarrow>
   pymax_from m xs \<in> set (m # xs) \<and> (\<forall>u \<in> set (m # xs). \<not> fgt u (pymax_from m xs))"
proof (induction xs arbitrary: m)
  case Nil
  then show ?case by (simp add: fgt_irrefl)
next
  case (Cons x xs)
  let ?m = "if fgt x m then x else m"
  have nn: "\<forall>v \<in> set (?m # xs). \<not> is_nan v" using Cons.prems by auto
  from Cons.IH [OF nn] have in_set: "pymax_from ?m xs \<in> set (?m # xs)"
    and mx: "\<forall>u \<in> set (?m # xs). \<not> fgt u (pymax_from ?m xs)" by blast+
  have rn: "\<not> is_nan (pymax_from ?m xs)" using in_set nn by blast
  have mm: "\<not> fgt ?m (pymax_from ?m xs)" using mx by simp
  have a: "\<not> fgt m (pymax_from ?m xs)"
  proof (cases "fgt x m")
    case True
    show ?thesis
    proof
      assume g: "fgt m (pymax_from ?m xs)"
      have "\<not> fgt x (pymax_from x xs)" using mm True by simp
      moreover have "fgt x (pymax_from x xs)"
        using g True by (cases x; cases m; cases "pymax_from x xs") simp_all
      ultimately show False by blast
    qed
  next
    case False
    then show ?thesis using mm by simp
  qed
  have b: "\<not> fgt x (pymax_from ?m xs)"
  proof (cases "fgt x m")
    case True
    then show ?thesis using mm by simp
  next
    case False
    show ?thesis
    proof
      assume g: "fgt x (pymax_from ?m xs)"
      have "\<not> fgt m (pymax_from m xs)" using mm False by simp
      moreover have "\<not> is_nan x" "\<not> is_nan m" using Cons.prems by auto
      ultimately show False
        using g False rn by (cases x; cases m; cases "pymax_from m xs") (simp_all add: is_nan_def)
    qed
  qed
  from in_set have "pymax_from m (x # xs) \<in> set (m # x # xs)" by (auto split: if_splits)
  moreover have "\<forall>u \<in> set (m # x # xs). \<not> fgt u (pymax_from m (x # xs))"
    using a b mx by auto
  ultimately show ?case by blast
qed

lemma py_max_of_is_maximum:
  assumes "vs \<noteq> []" and "\<forall>v \<in> set vs. \<not> is_nan v" and "v \<in> set vs"
  shows "feq (py_max_of vs) v = is_maximum v vs"
proof -
  obtain m xs where vs: "vs = m # xs" using assms(1) by (cases vs) auto
  have nn: "\<forall>v \<in> set (m # xs). \<not> is_nan v" using assms(2) vs by simp
  from pymax_from_max [OF nn]
  have in_set: "py_max_of vs \<in> set vs" and mx: "\<forall>u \<in> set vs. \<not> fgt u (py_max_of vs)"
    by (simp_all add: py_max_of_def vs)
  have rn: "\<not> is_nan (py_max_of vs)" using in_set assms(2) by blast
  have vn: "\<not> is_nan v" using assms(2,3) by blast
  have ismax: "is_maximum v vs = (\<forall>u \<in> set vs. \<not> fgt u v)"
    using assms(2,3) vn by (auto simp: is_maximum_def list_all_iff fle_iff)
  show ?thesis
  proof
    assume "feq (py_max_of vs) v"
    then have "py_max_of vs = v" using rn by (simp add: feq_iff)
    with mx show "is_maximum v vs" by (simp add: ismax)
  next
    assume "is_maximum v vs"
    then have "\<not> fgt (py_max_of vs) v" using in_set by (simp add: ismax)
    moreover have "\<not> fgt v (py_max_of vs)" using mx assms(3) by blast
    ultimately have "py_max_of vs = v" using fgt_antisym rn vn by blast
    then show "feq (py_max_of vs) v" using rn by (simp add: feq_iff)
  qed
qed

lemma pymax_Inr: "vs \<noteq> [] \<Longrightarrow> pymax vs = Inr (py_max_of vs)"
  by (cases vs) (simp_all add: pymax_def py_max_of_def)

subsection \<open>Selection\<close>

lemma sub_coeff_window:
  assumes "coeff s = Some c" and "i < length c" and "1 \<le> gamma"
  shows "sub_coeff s (get_params_idx (int i) gamma (int (length c)))
    = Inr (py_max_of (window_rows c i gamma))"
proof -
  have "window_rows c i gamma \<noteq> []"
    using window_rows_contains_centre [OF assms(2,3)] by auto
  then show ?thesis
    using assms(1) by (simp add: sub_coeff_def bindE_def attr_def take_rows_window pymax_Inr)
qed

lemma update_max_coeff_result:
  assumes c: "coeff s = Some c" and n: "sample_size s = int (length c)"
    and g: "params s ''gamma'' = Some gamma" and g1: "1 \<le> gamma"
  shows "update_max_coeff s
    = Inr (s\<lparr>max_coeff := Some (map (\<lambda>i. py_max_of (window_rows c i gamma)) [0..<length c])\<rparr>)"
proof -
  let ?w = "\<lambda>i. get_params_idx (int i) gamma (int (length c))"
  have gi: "get_index s ''gamma'' = Inr (map ?w [0..<length c])"
    using get_index_Some [OF g] n by simp
  have "sub_coeff s (?w i) = Inr (py_max_of (window_rows c i gamma))"
    if "i \<in> set [0..<length c]" for i
    using sub_coeff_window [OF c _ g1, of i] that by simp
  then have "mapE (sub_coeff s) (map ?w [0..<length c])
      = Inr (map (\<lambda>i. py_max_of (window_rows c i gamma)) [0..<length c])"
    by (rule mapE_map_Inr)
  with gi show ?thesis by (simp add: update_max_coeff_def bindE_def)
qed

lemma simplified_trajectory_result:
  assumes m: "max_coeff s = Some m" and c: "coeff s = Some c" and lm: "length m = length c"
    and fs: "filtering_spatial_position s = Some fs" and ft: "filtering_temporal_position s = Some ft"
    and lfs: "length fs = length c" and lft: "length ft = length c" and ne: "c \<noteq> []"
  shows "simplified_trajectory s
    = Inr (s\<lparr>simplified_spatial_position :=
                Some (map (\<lambda>i. fs ! i) (filter (\<lambda>i. feq (m ! i) (c ! i)) [0..<length c])),
              simplified_temporal_position :=
                Some (map (\<lambda>i. ft ! i) (filter (\<lambda>i. feq (m ! i) (c ! i)) [0..<length c]))\<rparr>)"
proof -
  let ?K = "filter (\<lambda>i. feq (m ! i) (c ! i)) [0..<length c]"
  have w: "where_equal m c = map int ?K" by (simp add: where_equal_def lm)
  have a: "take_rows fs (map int ?K) = Inr (map (\<lambda>i. fs ! i) ?K)"
    by (rule take_rows_nats) (simp add: lfs)
  have b: "take_rows ft (map int ?K) = Inr (map (\<lambda>i. ft ! i) ?K)"
    by (rule take_rows_nats) (simp add: lft)
  have "fs \<noteq> []" using lfs ne by auto
  then show ?thesis
    unfolding simplified_trajectory_def
    by (simp add: m c fs ft lm bindE_def attr_def Let_def w take_rows2_def a b)
qed

lemma selection_result:
  assumes c: "coeff s = Some c" and n: "sample_size s = int (length c)"
    and g: "params s ''gamma'' = Some gamma" and g1: "1 \<le> gamma"
    and fs: "filtering_spatial_position s = Some fs" and ft: "filtering_temporal_position s = Some ft"
    and lfs: "length fs = length c" and lft: "length ft = length c" and ne: "c \<noteq> []"
  shows "bindE (update_max_coeff s) simplified_trajectory
    = Inr (s\<lparr>max_coeff := Some (map (\<lambda>i. py_max_of (window_rows c i gamma)) [0..<length c]),
              simplified_spatial_position := Some (map (\<lambda>i. fs ! i) (selected_indices c gamma)),
              simplified_temporal_position := Some (map (\<lambda>i. ft ! i) (selected_indices c gamma))\<rparr>)"
proof -
  let ?m = "map (\<lambda>i. py_max_of (window_rows c i gamma)) [0..<length c]"
  let ?s1 = "s\<lparr>max_coeff := Some ?m\<rparr>"
  have u: "update_max_coeff s = Inr ?s1" by (rule update_max_coeff_result [OF c n g g1])
  have f: "filter (\<lambda>i. feq (?m ! i) (c ! i)) [0..<length c] = selected_indices c gamma"
    unfolding selected_indices_def
  proof (rule filter_cong [OF refl])
    fix i assume "i \<in> set [0..<length c]"
    then show "feq (?m ! i) (c ! i) = feq (py_max_of (window_rows c i gamma)) (c ! i)" by simp
  qed
  have "simplified_trajectory ?s1
    = Inr (?s1\<lparr>simplified_spatial_position :=
                Some (map (\<lambda>i. fs ! i) (filter (\<lambda>i. feq (?m ! i) (c ! i)) [0..<length c])),
              simplified_temporal_position :=
                Some (map (\<lambda>i. ft ! i) (filter (\<lambda>i. feq (?m ! i) (c ! i)) [0..<length c]))\<rparr>)"
    by (rule simplified_trajectory_result [of ?s1 ?m c fs ft]) (simp_all add: c fs ft lfs lft ne)
  then show ?thesis unfolding f using u by (simp add: bindE_def)
qed

lemma selected_is_kept:
  assumes "\<forall>v \<in> set c. \<not> is_nan v" and "1 \<le> gamma"
  shows "selected_indices c gamma = kept_indices c gamma"
proof -
  have "feq (py_max_of (window_rows c i gamma)) (c ! i) = is_maximum (c ! i) (window_rows c i gamma)"
    if i: "i < length c" for i
  proof -
    have in_w: "c ! i \<in> set (window_rows c i gamma)"
      by (rule window_rows_contains_centre [OF i assms(2)])
    then have ne: "window_rows c i gamma \<noteq> []" by auto
    have "set (window_rows c i gamma) \<subseteq> set c" by (rule set_window_rows_subset)
    with assms(1) have nn: "\<forall>v \<in> set (window_rows c i gamma). \<not> is_nan v" by auto
    show ?thesis by (rule py_max_of_is_maximum [OF ne nn in_w])
  qed
  then have eq: "\<And>i. i \<in> set [0..<length c] \<Longrightarrow>
      feq (py_max_of (window_rows c i gamma)) (c ! i) = is_maximum (c ! i) (window_rows c i gamma)"
    by simp
  show ?thesis unfolding kept_indices_def selected_indices_def
    by (rule filter_cong [OF refl eq])
qed

subsection \<open>The whole run\<close>

lemma run_result:
  assumes n: "sample_size s = int (length (position s))" and ne: "position s \<noteq> []"
    and a: "params s ''alpha'' = Some alpha"
    and g: "params s ''gamma'' = Some gamma" and g1: "1 \<le> gamma"
    and ma: "moving_average s = Inr s1" and uc: "update_coeff corr s1 = Inr s2"
    and c: "coeff s2 = Some c"
  shows "length c = length (position s)"
    and "run corr s
      = Inr (s2\<lparr>max_coeff := Some (map (\<lambda>i. py_max_of (window_rows c i gamma)) [0..<length c]),
                simplified_spatial_position :=
                  Some (map (\<lambda>i. smoothed_trajectory (position s) alpha ! i) (selected_indices c gamma)),
                simplified_temporal_position :=
                  Some (map (\<lambda>i. timestamps_of (position s) ! i) (selected_indices c gamma))\<rparr>)"
    and "temporal_position s2 = Some (timestamps_of (position s))"
proof -
  let ?fs = "smoothed_trajectory (position s) alpha"
  let ?ft = "timestamps_of (position s)"
  have s1: "s1 = s\<lparr>spatial_position := Some (spatial_of (position s)),
              temporal_position := Some ?ft,
              filtering_spatial_position := Some ?fs,
              filtering_temporal_position := Some ?ft\<rparr>"
    using ma moving_average_result [OF n a] by simp
  from update_coeff_shape [OF uc] obtain c' where s2: "s2 = s1\<lparr>coeff := Some c'\<rparr>"
    and lc': "length c' = nat (sample_size s1)" by blast
  from s2 c have cc: "c' = c" by simp
  show lc: "length c = length (position s)" using lc' cc s1 n by simp
  show "temporal_position s2 = Some ?ft" using s2 s1 by simp
  have sel: "bindE (update_max_coeff s2) simplified_trajectory
    = Inr (s2\<lparr>max_coeff := Some (map (\<lambda>i. py_max_of (window_rows c i gamma)) [0..<length c]),
              simplified_spatial_position := Some (map (\<lambda>i. ?fs ! i) (selected_indices c gamma)),
              simplified_temporal_position := Some (map (\<lambda>i. ?ft ! i) (selected_indices c gamma))\<rparr>)"
  proof (rule selection_result [OF c _ _ g1])
    show "sample_size s2 = int (length c)" using s2 s1 n lc by simp
    show "params s2 ''gamma'' = Some gamma" using s2 s1 g by simp
    show "filtering_spatial_position s2 = Some ?fs" using s2 s1 by simp
    show "filtering_temporal_position s2 = Some ?ft" using s2 s1 by simp
    show "length ?fs = length c" using lc by (simp add: length_smoothed_trajectory)
    show "length ?ft = length c" using lc by (simp add: timestamps_of_def)
    show "c \<noteq> []" using lc ne by auto
  qed
  show "run corr s
      = Inr (s2\<lparr>max_coeff := Some (map (\<lambda>i. py_max_of (window_rows c i gamma)) [0..<length c]),
                simplified_spatial_position := Some (map (\<lambda>i. ?fs ! i) (selected_indices c gamma)),
                simplified_temporal_position := Some (map (\<lambda>i. ?ft ! i) (selected_indices c gamma))\<rparr>)"
    using ma uc sel by (simp add: run_def bindE_def)
qed

lemma compression_rate_result:
  assumes "simplified_temporal_position s = Some st" and "temporal_position s = Some t"
    and "t \<noteq> []"
  shows "compression_rate s = Inr (Fin (1 - real (length st) / real (length t)))"
  using assms by (simp add: compression_rate_def bindE_def attr_def)

lemma sorted_kept_indices: "sorted_wrt (<) (kept_indices c gamma)"
  unfolding kept_indices_def by (rule sorted_wrt_filter) (simp add: sorted_wrt_upt)

lemma set_kept_indices:
  "i \<in> set (kept_indices c gamma) \<longleftrightarrow> i < length c \<and> is_maximum (c ! i) (window_rows c i gamma)"
  by (auto simp: kept_indices_def)

text \<open>
  Claim C1, amended. For a trajectory of length \<open>n \<ge> 1\<close> whose scores hold no NaN, a
  half-width \<open>gamma \<ge> 1\<close> and every index \<open>i\<close> below \<open>n\<close>:
  \<open>i\<close> is in the compressed output if and only if its score equals the maximum score
  over its window of half-width \<open>gamma\<close> (all tied indices are kept), and the compressed
  trajectory is the subsequence of the smoothed trajectory (smoothed spatial coordinates with
  the original timestamps) at the kept indices, in order. The scores are those of a scorer
  that returned.
\<close>

theorem run_keeps_window_maxima:
  assumes "sample_size s = int (length (position s))" and "position s \<noteq> []"
    and "params s ''alpha'' = Some alpha"
    and "params s ''gamma'' = Some gamma" and "1 \<le> gamma"
    and "moving_average s = Inr s1" and "update_coeff corr s1 = Inr s2"
    and "coeff s2 = Some c" and "\<forall>v \<in> set c. \<not> is_nan v"
  shows "\<exists>s'. run corr s = Inr s'
    \<and> length c = length (position s)
    \<and> (\<forall>i < length (position s).
          i \<in> set (kept_indices c gamma) \<longleftrightarrow> is_maximum (c ! i) (window_rows c i gamma))
    \<and> sorted_wrt (<) (kept_indices c gamma)
    \<and> simplified_spatial_position s'
        = Some (map (\<lambda>i. smoothed_trajectory (position s) alpha ! i) (kept_indices c gamma))
    \<and> simplified_temporal_position s'
        = Some (map (\<lambda>i. timestamps_of (position s) ! i) (kept_indices c gamma))"
proof -
  note r = run_result [OF assms(1-8)]
  have k: "selected_indices c gamma = kept_indices c gamma"
    by (rule selected_is_kept [OF assms(9,5)])
  have "\<forall>i < length (position s).
      i \<in> set (kept_indices c gamma) \<longleftrightarrow> is_maximum (c ! i) (window_rows c i gamma)"
    using r(1) by (simp add: set_kept_indices)
  then show ?thesis
    using r(1,2) sorted_kept_indices [of c gamma] by (simp add: k)
qed

subsection \<open>The sample on a line\<close>

lemma line4_object_fields:
  "sample_size line4_object = int (length (position line4_object))"
  "position line4_object \<noteq> []"
  "position line4_object = line4"
  "params line4_object ''alpha'' = Some 1"
  "params line4_object ''beta'' = Some 2"
  "params line4_object ''gamma'' = Some 1"
  by (simp_all add: line4_object_def new_FastStray_def line4_def settings_def)

lemma ksi_line4_0:
  "ksi_func pearsonr [(Fin 0, Fin 1), (Fin (1 / 2), Fin 2)] [Fin 0, Fin 1] = Inr (Fin 2)"
  by (simp add: ksi_func_def bindE_def corr_defs)

lemma ksi_line4_1:
  "ksi_func pearsonr [(Fin 0, Fin 1), (Fin (1 / 2), Fin 2), (Fin (3 / 2), Fin 4)]
     [Fin 0, Fin 1, Fin 2] = Inr (Fin (56 / 27))"
  by (simp add: ksi_func_def bindE_def corr_defs)

lemma ksi_line4_2:
  "ksi_func pearsonr [(Fin 0, Fin 1), (Fin (1 / 2), Fin 2), (Fin (3 / 2), Fin 4), (Fin (5 / 2), Fin 6)]
     [Fin 0, Fin 1, Fin 2, Fin 3] = Inr (Fin (590 / 289))"
  by (simp add: ksi_func_def bindE_def corr_defs)

lemma ksi_line4_3:
  "ksi_func pearsonr [(Fin (1 / 2), Fin 2), (Fin (3 / 2), Fin 4), (Fin (5 / 2), Fin 6)]
     [Fin 1, Fin 2, Fin 3] = Inr (Fin 2)"
  by (simp add: ksi_func_def bindE_def corr_defs)

lemma update_coeff_line4: "update_coeff pearsonr line4_smoothed = Inr line4_scored"
  by (simp add: update_coeff_def score_at_def sub_spatial_array_def sub_temporal_array_def
      eval_defs ksi_line4_0 ksi_line4_1 ksi_line4_2 ksi_line4_3
      line4_scored_def line4_scores_def line4_smoothed_def line4_object_def)

lemma kept_line4: "kept_indices line4_scores 1 = [0, 1]"
  unfolding line4_scores_def by code_simp

lemma line4_scores_not_nan: "\<forall>v \<in> set line4_scores. \<not> is_nan v"
  by (simp add: line4_scores_def is_nan_def)

theorem run_keeps_window_maxima_witness:
  "\<exists>s'. run pearsonr line4_object = Inr s'
    \<and> kept_indices line4_scores 1 = [0, 1]
    \<and> simplified_spatial_position s' = Some [(Fin 0, Fin 1), (Fin (1 / 2), Fin 2)]
    \<and> simplified_temporal_position s' = Some [Fin 0, Fin 1]"
proof -
  have c: "coeff line4_scored = Some line4_scores" by (simp add: line4_scored_def)
  have g1: "(1::int) \<le> 1" by simp
  from run_keeps_window_maxima [OF line4_object_fields(1,2,4,6) g1 moving_average_line4
      update_coeff_line4 c line4_scores_not_nan]
  obtain s' where r: "run pearsonr line4_object = Inr s'"
    and sp: "simplified_spatial_position s'
        = Some (map (\<lambda>i. smoothed_trajectory (position line4_object) 1 ! i)
                  (kept_indices line4_scores 1))"
    and tp: "simplified_temporal_position s'
        = Some (map (\<lambda>i. timestamps_of (position line4_object) ! i) (kept_indices line4_scores 1))"
    by blast
  from sp have "simplified_spatial_position s' = Some [(Fin 0, Fin 1), (Fin (1 / 2), Fin 2)]"
    by (simp add: kept_line4 line4_object_fields(3) smoothed_line4)
  moreover from tp have "simplified_temporal_position s' = Some [Fin 0, Fin 1]"
    by (simp add: kept_line4 line4_object_fields(3) timestamps_line4)
  ultimately show ?thesis using r kept_line4 by blast
qed

lemma max_line4:
  "map (\<lambda>i. py_max_of (window_rows line4_scores i 1)) [0..<length line4_scores]
    = [Fin 2, Fin (56 / 27), Fin (56 / 27), Fin (590 / 289)]"
  unfolding line4_scores_def by code_simp

lemma selected_line4: "selected_indices line4_scores 1 = [0, 1]"
  unfolding line4_scores_def by code_simp

lemma run_line4: "run pearsonr line4_object = Inr line4_compressed"
proof -
  have c: "coeff line4_scored = Some line4_scores" by (simp add: line4_scored_def)
  have g1: "(1::int) \<le> 1" by simp
  from run_result(2) [OF line4_object_fields(1,2,4,6) g1 moving_average_line4
      update_coeff_line4 c]
  show ?thesis
    by (simp add: max_line4 selected_line4 line4_object_fields(3) smoothed_line4 timestamps_line4
        line4_compressed_def)
qed

lemma compression_rate_line4: "compression_rate line4_compressed = Inr (Fin (1 / 2))"
  by (simp add: compression_rate_def bindE_def attr_def line4_compressed_def line4_scored_def
      line4_smoothed_def)

subsection \<open>Global maxima and equal scores\<close>






subsection \<open>Trajectories on a line\<close>

text \<open>
  Claim C9, as stated, fails. The four samples of \<open>line4\<close> lie on a line (\<open>x = t\<close>,
  \<open>y = 2 t + 1\<close>); with half-widths 1, 2 and 1 the run returns the scores 2, 56/27, 590/289
  and 2, keeps the indices 0 and 1 only, and the compression rate is 1/2. The moving average
  clips its window at the start of the trajectory, so the smoothed samples are not on a line.
\<close>

theorem linear_trajectory_counterexample:
  "list_all (\<lambda>(x, y, t). x = t \<and> y = fadd (fmul (Fin 2) t) (Fin 1)) (position line4_object)
    \<and> run pearsonr line4_object = Inr line4_compressed
    \<and> coeff line4_compressed = Some [Fin 2, Fin (56 / 27), Fin (590 / 289), Fin 2]
    \<and> simplified_temporal_position line4_compressed = Some [Fin 0, Fin 1]
    \<and> compression_rate line4_compressed = Inr (Fin (1 / 2))"
proof -
  have "list_all (\<lambda>(x, y, t). x = t \<and> y = fadd (fmul (Fin 2) t) (Fin 1)) (position line4_object)"
    by (simp add: line4_object_fields(3) line4_def)
  moreover have "coeff line4_compressed = Some [Fin 2, Fin (56 / 27), Fin (590 / 289), Fin 2]"
    by (simp add: line4_compressed_def line4_scored_def line4_scores_def)
  moreover have "simplified_temporal_position line4_compressed = Some [Fin 0, Fin 1]"
    by (simp add: line4_compressed_def)
  ultimately show ?thesis using run_line4 compression_rate_line4 by blast
qed

lemma equal_scores_kept:
  assumes "\<not> is_nan v" and "\<forall>u \<in> set c. u = v" and "1 \<le> gamma"
  shows "kept_indices c gamma = [0..<length c]"
proof -
  have "is_maximum (c ! i) (window_rows c i gamma)" if i: "i < length c" for i
  proof -
    have ci: "c ! i = v" using assms(2) i by simp
    have "fle v v" using assms(1) by (cases v) (simp_all add: fle_def is_nan_def)
    moreover have "\<forall>u \<in> set (window_rows c i gamma). u = v"
      using assms(2) set_window_rows_subset [of c i gamma] by blast
    ultimately have "\<forall>u \<in> set (window_rows c i gamma). fle u (c ! i)"
      unfolding ci by auto
    with window_rows_contains_centre [OF i assms(3)] show ?thesis
      by (simp add: is_maximum_def list_all_iff)
  qed
  then have "\<forall>i \<in> set [0..<length c]. is_maximum (c ! i) (window_rows c i gamma)" by simp
  then show ?thesis unfolding kept_indices_def by (simp only: filter_True)
qed

text \<open>
  Claim C9, amended. When every score is the same value, not NaN, and \<open>gamma \<ge> 1\<close>, every
  index is the maximum of its window: all \<open>n\<close> points are kept and the compression rate is 0.
\<close>

theorem run_equal_scores_keeps_all:
  assumes "sample_size s = int (length (position s))" and "position s \<noteq> []"
    and "params s ''alpha'' = Some alpha"
    and "params s ''gamma'' = Some gamma" and "1 \<le> gamma"
    and "moving_average s = Inr s1" and "update_coeff corr s1 = Inr s2"
    and "coeff s2 = Some c" and "\<not> is_nan v" and "\<forall>u \<in> set c. u = v"
  shows "\<exists>s'. run corr s = Inr s'
    \<and> kept_indices c gamma = [0..<length (position s)]
    \<and> simplified_spatial_position s' = Some (smoothed_trajectory (position s) alpha)
    \<and> simplified_temporal_position s' = Some (timestamps_of (position s))
    \<and> compression_rate s' = Inr (Fin 0)"
proof -
  have nn: "\<forall>u \<in> set c. \<not> is_nan u" using assms(9,10) by auto
  note r = run_result [OF assms(1-8)]
  have k: "selected_indices c gamma = kept_indices c gamma"
    by (rule selected_is_kept [OF nn assms(5)])
  have all: "kept_indices c gamma = [0..<length (position s)]"
    using equal_scores_kept [OF assms(9,10,5)] r(1) by simp
  let ?fs = "smoothed_trajectory (position s) alpha"
  let ?ft = "timestamps_of (position s)"
  have lfs: "length ?fs = length (position s)" by (rule length_smoothed_trajectory)
  have lft: "length ?ft = length (position s)" by (simp add: timestamps_of_def)
  have mfs: "map (\<lambda>i. ?fs ! i) [0..<length (position s)] = ?fs"
    using map_nth [of ?fs] by (simp add: lfs)
  have mft: "map (\<lambda>i. ?ft ! i) [0..<length (position s)] = ?ft"
    using map_nth [of ?ft] by (simp add: lft)
  let ?s' = "s2\<lparr>max_coeff := Some (map (\<lambda>i. py_max_of (window_rows c i gamma)) [0..<length c]),
                simplified_spatial_position := Some ?fs,
                simplified_temporal_position := Some ?ft\<rparr>"
  have run: "run corr s = Inr ?s'" using r(2) by (simp add: k all mfs mft)
  have tne: "?ft \<noteq> []" using assms(2) by (simp add: timestamps_of_def)
  have "compression_rate ?s' = Inr (Fin (1 - real (length ?ft) / real (length ?ft)))"
    by (rule compression_rate_result) (simp_all add: r(3) tne)
  then have rate: "compression_rate ?s' = Inr (Fin 0)" using tne by simp
  show ?thesis using run all rate by auto
qed

lemma pair2_object_fields:
  "sample_size pair2_object = int (length (position pair2_object))"
  "position pair2_object \<noteq> []"
  "position pair2_object = pair2"
  "params pair2_object ''alpha'' = Some 1"
  "params pair2_object ''beta'' = Some 2"
  "params pair2_object ''gamma'' = Some 1"
  by (simp_all add: pair2_object_def new_FastStray_def pair2_def settings_def)

lemma moving_average_pair2: "moving_average pair2_object = Inr pair2_smoothed"
  by (simp add: moving_average_def eval_defs pair2_def pair2_object_def pair2_smoothed_def)

lemma update_coeff_pair2: "update_coeff pearsonr pair2_smoothed = Inr pair2_scored"
  by (simp add: update_coeff_def score_at_def sub_spatial_array_def sub_temporal_array_def
      eval_defs ksi_line4_0 pair2_scored_def pair2_smoothed_def pair2_object_def)

theorem run_equal_scores_keeps_all_witness:
  "\<exists>s'. run pearsonr pair2_object = Inr s'
    \<and> kept_indices [Fin 2, Fin 2] 1 = [0, 1]
    \<and> simplified_spatial_position s' = Some [(Fin 0, Fin 1), (Fin (1 / 2), Fin 2)]
    \<and> simplified_temporal_position s' = Some [Fin 0, Fin 1]
    \<and> compression_rate s' = Inr (Fin 0)"
proof -
  have c: "coeff pair2_scored = Some [Fin 2, Fin 2]" by (simp add: pair2_scored_def)
  have g1: "(1::int) \<le> 1" by simp
  have v: "\<not> is_nan (Fin 2)" by (simp add: is_nan_def)
  have eq: "\<forall>u \<in> set [Fin 2, Fin 2]. u = Fin 2" by simp
  have sm: "smoothed_trajectory pair2 1 = [(Fin 0, Fin 1), (Fin (1 / 2), Fin 2)]"
    by (simp add: smoothed_trajectory_def eval_defs pair2_def)
  have ts: "timestamps_of pair2 = [Fin 0, Fin 1]" by (simp add: timestamps_of_def pair2_def)
  have up: "[0..<length pair2] = [0, 1]" by (simp add: pair2_def upt_rec)
  from run_equal_scores_keeps_all [OF pair2_object_fields(1,2,4,6) g1 moving_average_pair2
      update_coeff_pair2 c v eq]
  show ?thesis by (simp add: pair2_object_fields(3) sm ts up)
qed

subsection \<open>Smoothing with half-width 0\<close>

text \<open>
  Claim C8, as stated, fails. With \<open>alpha = 0\<close> every window is empty, the window of
  centre 2 in a length of 4 for one, and the smoothed coordinates of the four samples of
  \<open>line4\<close> are all NaN, not the coordinates of the samples.
\<close>

theorem smoothing_zero_counterexample:
  "get_params_idx 2 0 4 = []
    \<and> moving_average line4_unsmoothed = Inr line4_nan
    \<and> spatial_position line4_nan
        = Some [(Fin 0, Fin 1), (Fin 1, Fin 3), (Fin 2, Fin 5), (Fin 3, Fin 7)]
    \<and> filtering_spatial_position line4_nan
        = Some [(NaN, NaN), (NaN, NaN), (NaN, NaN), (NaN, NaN)]
    \<and> filtering_spatial_position line4_nan \<noteq> spatial_position line4_nan"
proof -
  have "get_params_idx 2 0 4 = []" by (simp add: get_params_idx_def arange_def)
  moreover have "moving_average line4_unsmoothed = Inr line4_nan"
    by (simp add: moving_average_def eval_defs line4_def line4_unsmoothed_def line4_nan_def)
  ultimately show ?thesis by (simp add: line4_nan_def)
qed

lemma window_zero: "get_params_idx i 0 n = []"
  by (simp add: get_params_idx_def arange_def)

lemma smoothed_trajectory_zero:
  "smoothed_trajectory pos 0 = replicate (length pos) (NaN, NaN)"
  by (simp add: smoothed_trajectory_def window_rows_def window_zero mean_rows_def np_mean_Nil
      map_replicate_const)

lemma mean_rows_single: "mean_rows [p] = p"
proof -
  have "np_mean [v] = v" for v by (cases v) (simp_all add: np_mean_def)
  then show ?thesis by (cases p) (simp add: mean_rows_def)
qed

text \<open>
  Claim C8, amended. With \<open>alpha = 0\<close> every window is empty, and smoothing returns NaN
  for both coordinates at every index, with the timestamps unchanged. The mean over a
  window of one sample is that sample.
\<close>

theorem moving_average_zero:
  assumes "sample_size s = int (length (position s))"
    and "params s ''alpha'' = Some 0"
  shows "\<exists>s'. moving_average s = Inr s'
    \<and> (\<forall>i. get_params_idx i 0 (sample_size s) = [])
    \<and> filtering_spatial_position s' = Some (replicate (length (position s)) (NaN, NaN))
    \<and> filtering_temporal_position s' = Some (timestamps_of (position s))
    \<and> (\<forall>p. mean_rows [p] = p)"
  using moving_average_result [OF assms]
  by (simp add: smoothed_trajectory_zero window_zero mean_rows_single)

theorem moving_average_zero_witness:
  "\<exists>s'. moving_average line4_unsmoothed = Inr s'
    \<and> filtering_spatial_position s' = Some [(NaN, NaN), (NaN, NaN), (NaN, NaN), (NaN, NaN)]
    \<and> filtering_temporal_position s' = Some [Fin 0, Fin 1, Fin 2, Fin 3]"
proof -
  have h1: "sample_size line4_unsmoothed = int (length (position line4_unsmoothed))"
    by (simp add: line4_unsmoothed_def new_FastStray_def line4_def)
  have h2: "params line4_unsmoothed ''alpha'' = Some 0"
    by (simp add: line4_unsmoothed_def new_FastStray_def settings_def)
  have pos: "position line4_unsmoothed = line4"
    by (simp add: line4_unsmoothed_def new_FastStray_def)
  have rep: "replicate (length line4) (NaN, NaN) = [(NaN, NaN), (NaN, NaN), (NaN, NaN), (NaN, NaN)]"
    by (simp add: line4_def)
  from moving_average_zero [OF h1 h2]
  obtain s' where "moving_average line4_unsmoothed = Inr s'"
    and "filtering_spatial_position s' = Some (replicate (length (position line4_unsmoothed)) (NaN, NaN))"
    and "filtering_temporal_position s' = Some (timestamps_of (position line4_unsmoothed))"
    by blast
  then show ?thesis by (simp add: pos rep timestamps_line4)
qed

subsection \<open>The compression rate\<close>

text \<open>
  Claim C6, as stated, fails for \<open>n = 0\<close>. On an object without samples the run raises
  \<^verbatim>\<open>IndexError\<close>, and \<open>compression_rate\<close> on empty temporal sequences raises
  \<^verbatim>\<open>ZeroDivisionError\<close>: it does not return 0.
\<close>

theorem compression_rate_empty_counterexample:
  "run pearsonr empty_object = Inl IndexError
    \<and> compression_rate empty_compressed = Inl ZeroDivisionError
    \<and> compression_rate empty_compressed \<noteq> Inr (Fin 0)"
proof -
  have "run pearsonr empty_object = Inl IndexError"
    by (simp add: run_def moving_average_def update_coeff_def update_max_coeff_def
        simplified_trajectory_def where_equal_def eval_defs empty_object_def)
  moreover have "compression_rate empty_compressed = Inl ZeroDivisionError"
    by (simp add: compression_rate_def bindE_def attr_def empty_compressed_def)
  ultimately show ?thesis by simp
qed

lemma bindE_Inr: "bindE m f = Inr y \<Longrightarrow> \<exists>x. m = Inr x \<and> f x = Inr y"
  by (cases m) (simp_all add: bindE_def)

lemma update_max_coeff_shape:
  assumes "update_max_coeff s = Inr s3"
  shows "\<exists>m. s3 = s\<lparr>max_coeff := Some m\<rparr>"
proof -
  from bindE_Inr [OF assms [unfolded update_max_coeff_def]]
  obtain idx where "bindE (mapE (sub_coeff s) idx) (\<lambda>m. Inr (s\<lparr>max_coeff := Some m\<rparr>)) = Inr s3"
    by blast
  from bindE_Inr [OF this] show ?thesis by auto
qed

lemma simplified_trajectory_shape:
  assumes "simplified_trajectory s = Inr s'"
  shows "\<exists>fs ss st. filtering_spatial_position s = Some fs \<and> fs \<noteq> []
    \<and> s' = s\<lparr>simplified_spatial_position := Some ss, simplified_temporal_position := Some st\<rparr>"
proof -
  from bindE_Inr [OF assms [unfolded simplified_trajectory_def]]
  obtain m where m: "attr (max_coeff s) = Inr m"
    and 1: "bindE (attr (coeff s)) (\<lambda>c.
       if length m \<noteq> length c then Inl ValueError
       else
         (let compress_index = where_equal m c
          in bindE (attr (filtering_spatial_position s)) (\<lambda>fs.
             bindE (take_rows2 fs compress_index) (\<lambda>ss.
             bindE (attr (filtering_temporal_position s)) (\<lambda>ft.
             bindE (take_rows ft compress_index) (\<lambda>st.
             Inr (s\<lparr>simplified_spatial_position := Some ss,
                       simplified_temporal_position := Some st\<rparr>))))))) = Inr s'"
    by blast
  from bindE_Inr [OF 1] obtain c where c: "attr (coeff s) = Inr c"
    and 2: "(if length m \<noteq> length c then Inl ValueError
       else
         (let compress_index = where_equal m c
          in bindE (attr (filtering_spatial_position s)) (\<lambda>fs.
             bindE (take_rows2 fs compress_index) (\<lambda>ss.
             bindE (attr (filtering_temporal_position s)) (\<lambda>ft.
             bindE (take_rows ft compress_index) (\<lambda>st.
             Inr (s\<lparr>simplified_spatial_position := Some ss,
                       simplified_temporal_position := Some st\<rparr>))))))) = Inr s'"
    by blast
  from 2 have 3: "bindE (attr (filtering_spatial_position s)) (\<lambda>fs.
             bindE (take_rows2 fs (where_equal m c)) (\<lambda>ss.
             bindE (attr (filtering_temporal_position s)) (\<lambda>ft.
             bindE (take_rows ft (where_equal m c)) (\<lambda>st.
             Inr (s\<lparr>simplified_spatial_position := Some ss,
                       simplified_temporal_position := Some st\<rparr>))))) = Inr s'"
    by (simp add: Let_def split: if_splits)
  from bindE_Inr [OF 3] obtain fs where fs: "attr (filtering_spatial_position s) = Inr fs"
    and 4: "bindE (take_rows2 fs (where_equal m c)) (\<lambda>ss.
             bindE (attr (filtering_temporal_position s)) (\<lambda>ft.
             bindE (take_rows ft (where_equal m c)) (\<lambda>st.
             Inr (s\<lparr>simplified_spatial_position := Some ss,
                       simplified_temporal_position := Some st\<rparr>)))) = Inr s'"
    by blast
  from bindE_Inr [OF 4] obtain ss where ss: "take_rows2 fs (where_equal m c) = Inr ss"
    and 5: "bindE (attr (filtering_temporal_position s)) (\<lambda>ft.
             bindE (take_rows ft (where_equal m c)) (\<lambda>st.
             Inr (s\<lparr>simplified_spatial_position := Some ss,
                       simplified_temporal_position := Some st\<rparr>))) = Inr s'"
    by blast
  from bindE_Inr [OF 5] obtain ft where
    6: "bindE (take_rows ft (where_equal m c)) (\<lambda>st.
             Inr (s\<lparr>simplified_spatial_position := Some ss,
                       simplified_temporal_position := Some st\<rparr>)) = Inr s'"
    by blast
  from bindE_Inr [OF 6] obtain st where
    s': "s' = s\<lparr>simplified_spatial_position := Some ss, simplified_temporal_position := Some st\<rparr>"
    by auto
  from fs have "filtering_spatial_position s = Some fs"
    by (simp add: attr_def split: option.splits)
  moreover from ss have "fs \<noteq> []" by (auto simp: take_rows2_def split: if_splits)
  ultimately show ?thesis using s' by blast
qed

lemma moving_average_alpha:
  assumes "moving_average s = Inr s1"
  shows "\<exists>alpha. params s ''alpha'' = Some alpha"
proof (cases "params s ''alpha''")
  case None
  then have "moving_average s = Inl KeyError"
    by (simp add: moving_average_def Let_def get_index_def bindE_def)
  with assms show ?thesis by simp
next
  case (Some a)
  then show ?thesis by blast
qed

lemma run_shape:
  assumes n: "sample_size s = int (length (position s))" and run: "run corr s = Inr s'"
  shows "position s \<noteq> []"
    and "temporal_position s' = Some (timestamps_of (position s))"
    and "\<exists>st. simplified_temporal_position s' = Some st"
proof -
  from bindE_Inr [OF run [unfolded run_def]] obtain s1 where ma: "moving_average s = Inr s1"
    and 1: "bindE (update_coeff corr s1) (\<lambda>s2. bindE (update_max_coeff s2) simplified_trajectory)
        = Inr s'" by blast
  from bindE_Inr [OF 1] obtain s2 where uc: "update_coeff corr s1 = Inr s2"
    and 2: "bindE (update_max_coeff s2) simplified_trajectory = Inr s'" by blast
  from bindE_Inr [OF 2] obtain s3 where um: "update_max_coeff s2 = Inr s3"
    and st: "simplified_trajectory s3 = Inr s'" by blast
  from moving_average_alpha [OF ma] obtain alpha where a: "params s ''alpha'' = Some alpha"
    by blast
  have s1: "s1 = s\<lparr>spatial_position := Some (spatial_of (position s)),
              temporal_position := Some (timestamps_of (position s)),
              filtering_spatial_position := Some (smoothed_trajectory (position s) alpha),
              filtering_temporal_position := Some (timestamps_of (position s))\<rparr>"
    using ma moving_average_result [OF n a] by simp
  from update_coeff_shape [OF uc] obtain c where s2: "s2 = s1\<lparr>coeff := Some c\<rparr>" by blast
  from update_max_coeff_shape [OF um] obtain m where s3: "s3 = s2\<lparr>max_coeff := Some m\<rparr>"
    by blast
  from simplified_trajectory_shape [OF st] obtain fs ss st' where
    fs: "filtering_spatial_position s3 = Some fs" "fs \<noteq> []"
    and s': "s' = s3\<lparr>simplified_spatial_position := Some ss,
                     simplified_temporal_position := Some st'\<rparr>"
    by blast
  from fs(1) have "fs = smoothed_trajectory (position s) alpha" by (simp add: s3 s2 s1)
  with fs(2) show "position s \<noteq> []" by (auto simp: smoothed_trajectory_def)
  show "temporal_position s' = Some (timestamps_of (position s))" by (simp add: s' s3 s2 s1)
  show "\<exists>st. simplified_temporal_position s' = Some st" by (simp add: s')
qed

text \<open>
  Claim C6, amended. A run completes only on a trajectory of length \<open>n \<ge> 1\<close>; after it
  \<open>compression_rate\<close> returns \<open>1 - kept_count / n\<close>, which is 0 when \<open>kept_count = n\<close>.
  On an empty temporal sequence \<open>compression_rate\<close> raises \<^verbatim>\<open>ZeroDivisionError\<close>.
\<close>

theorem compression_rate_after_run:
  assumes "sample_size s = int (length (position s))" and "run corr s = Inr s'"
  shows "position s \<noteq> []
    \<and> (\<exists>st. simplified_temporal_position s' = Some st
          \<and> compression_rate s'
              = Inr (Fin (1 - real (length st) / real (length (position s))))
          \<and> (length st = length (position s) \<longrightarrow> compression_rate s' = Inr (Fin 0)))
    \<and> (\<forall>x st. compression_rate
          (x\<lparr>temporal_position := Some [], simplified_temporal_position := Some st\<rparr>)
            = Inl ZeroDivisionError)"
proof -
  note r = run_shape [OF assms]
  from r(3) obtain st where st: "simplified_temporal_position s' = Some st" by blast
  have tne: "timestamps_of (position s) \<noteq> []" using r(1) by (simp add: timestamps_of_def)
  have "compression_rate s'
      = Inr (Fin (1 - real (length st) / real (length (timestamps_of (position s)))))"
    by (rule compression_rate_result [OF st r(2) tne])
  then have rate: "compression_rate s'
      = Inr (Fin (1 - real (length st) / real (length (position s))))"
    by (simp add: timestamps_of_def)
  have zero: "length st = length (position s) \<longrightarrow> compression_rate s' = Inr (Fin 0)"
    using rate r(1) by simp
  have "\<forall>x st. compression_rate
          (x\<lparr>temporal_position := Some [], simplified_temporal_position := Some st\<rparr>)
            = Inl ZeroDivisionError"
    by (simp add: compression_rate_def bindE_def attr_def)
  with r(1) st rate zero show ?thesis by blast
qed

theorem compression_rate_after_run_witness:
  "sample_size line4_object = int (length (position line4_object))
    \<and> run pearsonr line4_object = Inr line4_compressed
    \<and> simplified_temporal_position line4_compressed = Some [Fin 0, Fin 1]
    \<and> compression_rate line4_compressed = Inr (Fin (1 - 2 / 4))"
proof -
  from compression_rate_after_run [OF line4_object_fields(1) run_line4]
  obtain st where st: "simplified_temporal_position line4_compressed = Some st"
    and rate: "compression_rate line4_compressed
      = Inr (Fin (1 - real (length st) / real (length (position line4_object))))"
    by blast
  from st have "st = [Fin 0, Fin 1]" by (simp add: line4_compressed_def)
  with rate have "compression_rate line4_compressed = Inr (Fin (1 - 2 / 4))"
    by (simp add: line4_object_fields(3) line4_def)
  moreover have "simplified_temporal_position line4_compressed = Some [Fin 0, Fin 1]"
    by (simp add: line4_compressed_def)
  ultimately show ?thesis using line4_object_fields(1) run_line4 by blast
qed

subsection \<open>Degenerate neighbourhoods\<close>

text \<open>
  Claim C5, as stated, fails. Over two samples at one place the scorer returns NaN, and the
  run on three samples at one place returns with the scores NaN, NaN, NaN and an empty
  compressed trajectory: no error is raised and no sentinel score is produced.
\<close>

theorem degenerate_neighbourhood_counterexample:
  "ksi_func pearsonr [(Fin 1, Fin 1), (Fin 1, Fin 1)] [Fin 0, Fin 1] = Inr NaN
    \<and> run pearsonr still3_object = Inr still3_compressed
    \<and> coeff still3_compressed = Some [NaN, NaN, NaN]
    \<and> simplified_temporal_position still3_compressed = Some []"
proof -
  have k: "ksi_func pearsonr [(Fin 1, Fin 1), (Fin 1, Fin 1)] [Fin 0, Fin 1] = Inr NaN"
    by (simp add: ksi_func_def bindE_def pearsonr_def is_constant_def)
  have k3: "ksi_func pearsonr [(Fin 1, Fin 1), (Fin 1, Fin 1), (Fin 1, Fin 1)] [Fin 0, Fin 1, Fin 2]
      = Inr NaN"
    by (simp add: ksi_func_def bindE_def pearsonr_def is_constant_def)
  have k2: "ksi_func pearsonr [(Fin 1, Fin 1), (Fin 1, Fin 1)] [Fin 1, Fin 2] = Inr NaN"
    by (simp add: ksi_func_def bindE_def pearsonr_def is_constant_def)
  have "run pearsonr still3_object = Inr still3_compressed"
    by (simp add: run_def moving_average_def update_coeff_def score_at_def sub_spatial_array_def
        sub_temporal_array_def update_max_coeff_def sub_coeff_def pymax_def
        simplified_trajectory_def where_equal_def eval_defs k k2 k3
        still3_object_def still3_def still3_compressed_def)
  with k show ?thesis by (simp add: still3_compressed_def)
qed

lemma pearsonr_returns:
  assumes "length x = length y" and "2 \<le> length x"
  shows "\<exists>r. pearsonr x y = Inr r"
  using assms by (auto simp: pearsonr_def split: option.splits)

lemma fadd_NaN_right: "fadd a NaN = NaN"
  by (cases a) simp_all

lemma fdiv_NaN_right: "fdiv a NaN = NaN"
  by (cases a) simp_all

text \<open>
  Claim C5, amended. Over a neighbourhood of fewer than two samples the scorer raises the
  \<^verbatim>\<open>ValueError\<close> of \<open>pearsonr\<close>; over a neighbourhood of two samples or more in which
  a spatial axis is constant it returns the score NaN, with no error and no sentinel.
\<close>

theorem ksi_func_degenerate:
  "(length pp < 2 \<longrightarrow> ksi_func pearsonr pp tt = Inl ValueError)
    \<and> (2 \<le> length pp \<and> length tt = length pp
          \<and> (is_constant (map fst pp) \<or> is_constant (map snd pp))
        \<longrightarrow> ksi_func pearsonr pp tt = Inr NaN)"
proof (intro conjI impI)
  assume "length pp < 2"
  then have "pearsonr (map fst pp) tt = Inl ValueError" by (simp add: pearsonr_def)
  then show "ksi_func pearsonr pp tt = Inl ValueError"
    by (simp add: ksi_func_def Let_def bindE_def)
next
  assume a: "2 \<le> length pp \<and> length tt = length pp
    \<and> (is_constant (map fst pp) \<or> is_constant (map snd pp))"
  then have len: "length (map fst pp) = length tt" "2 \<le> length (map fst pp)"
    "length (map snd pp) = length tt" "2 \<le> length (map snd pp)" by simp_all
  from pearsonr_returns [OF len(1,2)] obtain rx where rx: "pearsonr (map fst pp) tt = Inr rx"
    by blast
  from pearsonr_returns [OF len(3,4)] obtain ry where ry: "pearsonr (map snd pp) tt = Inr ry"
    by blast
  from a consider "is_constant (map fst pp)" | "is_constant (map snd pp)" by blast
  then show "ksi_func pearsonr pp tt = Inr NaN"
  proof cases
    case 1
    then have "pearsonr (map fst pp) tt = Inr NaN" using a by (simp add: pearsonr_def)
    then show ?thesis using ry by (simp add: ksi_func_def Let_def bindE_def)
  next
    case 2
    then have "pearsonr (map snd pp) tt = Inr NaN" using a by (simp add: pearsonr_def)
    then show ?thesis
      using rx by (simp add: ksi_func_def Let_def bindE_def fdiv_NaN_right fadd_NaN_right)
  qed
qed

theorem ksi_func_degenerate_witness:
  "ksi_func pearsonr [(Fin 1, Fin 5)] [Fin 0] = Inl ValueError
    \<and> is_constant (map fst [(Fin 1, Fin 5), (Fin 1, Fin 6), (Fin 1, Fin 8)])
    \<and> ksi_func pearsonr [(Fin 1, Fin 5), (Fin 1, Fin 6), (Fin 1, Fin 8)] [Fin 0, Fin 1, Fin 2]
        = Inr NaN"
proof -
  have c: "is_constant (map fst [(Fin 1, Fin 5), (Fin 1, Fin 6), (Fin 1, Fin 8)])"
    by (simp add: is_constant_def)
  have "ksi_func pearsonr [(Fin 1, Fin 5)] [Fin 0] = Inl ValueError"
    using ksi_func_degenerate [of "[(Fin 1, Fin 5)]" "[Fin 0]"] by simp
  moreover have "ksi_func pearsonr [(Fin 1, Fin 5), (Fin 1, Fin 6), (Fin 1, Fin 8)]
      [Fin 0, Fin 1, Fin 2] = Inr NaN"
    using ksi_func_degenerate [of "[(Fin 1, Fin 5), (Fin 1, Fin 6), (Fin 1, Fin 8)]"
        "[Fin 0, Fin 1, Fin 2]"] c by simp
  ultimately show ?thesis using c by blast
qed

subsection \<open>The half-width of the selection\<close>

lemma north7_object_fields:
  "sample_size (north7_object g) = int (length (position (north7_object g)))"
  "position (north7_object g) \<noteq> []"
  "position (north7_object g) = north7"
  "params (north7_object g) ''alpha'' = Some 1"
  "params (north7_object g) ''beta'' = Some 2"
  "params (north7_object g) ''gamma'' = Some g"
  by (simp_all add: north7_object_def new_FastStray_def north7_def settings_def)

lemma moving_average_north7: "moving_average (north7_object g) = Inr (north7_smoothed g)"
  by (simp add: moving_average_def eval_defs north7_def north7_object_def north7_smoothed_def)

lemma ksi_north7_0:
  "ksi_func pearsonr [(Fin 0, Fin 0), (Fin (1 / 2), Fin (1 / 2))] [Fin 0, Fin 1] = Inr (Fin 2)"
  by (simp add: ksi_func_def bindE_def corr_defs)

lemma ksi_north7_1:
  "ksi_func pearsonr [(Fin 0, Fin 0), (Fin (1 / 2), Fin (1 / 2)), (Fin 1, Fin (3 / 2))]
     [Fin 0, Fin 1, Fin 2] = Inr (Fin (55 / 27))"
  by (simp add: ksi_func_def bindE_def corr_defs)

lemma ksi_north7_2:
  "ksi_func pearsonr
     [(Fin 0, Fin 0), (Fin (1 / 2), Fin (1 / 2)), (Fin 1, Fin (3 / 2)), (Fin 1, Fin (5 / 2))]
     [Fin 0, Fin 1, Fin 2, Fin 3] = Inr (Fin (30350 / 14161))"
  by (simp add: ksi_func_def bindE_def corr_defs)

lemma ksi_north7_3:
  "ksi_func pearsonr
     [(Fin (1 / 2), Fin (1 / 2)), (Fin 1, Fin (3 / 2)), (Fin 1, Fin (5 / 2)), (Fin 1, Fin (7 / 2))]
     [Fin 1, Fin 2, Fin 3, Fin 4] = Inr (Fin (8 / 3))"
  by (simp add: ksi_func_def bindE_def corr_defs)

lemma ksi_north7_4:
  "ksi_func pearsonr
     [(Fin 1, Fin (3 / 2)), (Fin 1, Fin (5 / 2)), (Fin 1, Fin (7 / 2)), (Fin 1, Fin (9 / 2))]
     [Fin 2, Fin 3, Fin 4, Fin 5] = Inr NaN"
  by (simp add: ksi_func_def bindE_def corr_defs)

lemma ksi_north7_5:
  "ksi_func pearsonr
     [(Fin 1, Fin (5 / 2)), (Fin 1, Fin (7 / 2)), (Fin 1, Fin (9 / 2)), (Fin (3 / 2), Fin 6)]
     [Fin 3, Fin 4, Fin 5, Fin 6] = Inr (Fin (4250 / 1587))"
  by (simp add: ksi_func_def bindE_def corr_defs)

lemma ksi_north7_6:
  "ksi_func pearsonr
     [(Fin 1, Fin (7 / 2)), (Fin 1, Fin (9 / 2)), (Fin (3 / 2), Fin 6)]
     [Fin 4, Fin 5, Fin 6] = Inr (Fin (176 / 75))"
  by (simp add: ksi_func_def bindE_def corr_defs)

lemma update_coeff_north7: "update_coeff pearsonr (north7_smoothed g) = Inr (north7_scored g)"
  by (simp add: update_coeff_def score_at_def sub_spatial_array_def sub_temporal_array_def
      eval_defs ksi_north7_0 ksi_north7_1 ksi_north7_2 ksi_north7_3 ksi_north7_4 ksi_north7_5
      ksi_north7_6 north7_scored_def north7_scores_def north7_smoothed_def north7_object_def)

lemma smoothed_north7:
  "smoothed_trajectory north7 1
    = [(Fin 0, Fin 0), (Fin (1 / 2), Fin (1 / 2)), (Fin 1, Fin (3 / 2)),
       (Fin 1, Fin (5 / 2)), (Fin 1, Fin (7 / 2)), (Fin 1, Fin (9 / 2)),
       (Fin (3 / 2), Fin 6)]"
  by (simp add: smoothed_trajectory_def eval_defs north7_def)

lemma timestamps_north7:
  "timestamps_of north7 = [Fin 0, Fin 1, Fin 2, Fin 3, Fin 4, Fin 5, Fin 6]"
  by (simp add: timestamps_of_def north7_def)

lemma max_north7_1:
  "map (\<lambda>i. py_max_of (window_rows north7_scores i 1)) [0..<length north7_scores]
    = [Fin 2, Fin (55 / 27), Fin (30350 / 14161), Fin (8 / 3), Fin (8 / 3), NaN,
       Fin (4250 / 1587)]"
  unfolding north7_scores_def by code_simp

lemma max_north7_2:
  "map (\<lambda>i. py_max_of (window_rows north7_scores i 2)) [0..<length north7_scores]
    = [Fin (55 / 27), Fin (30350 / 14161), Fin (8 / 3), Fin (8 / 3), Fin (4250 / 1587),
       Fin (4250 / 1587), NaN]"
  unfolding north7_scores_def by code_simp

lemma selected_north7_1: "selected_indices north7_scores 1 = [0, 1, 2, 3]"
  unfolding north7_scores_def by code_simp

lemma selected_north7_2: "selected_indices north7_scores 2 = [3, 5]"
  unfolding north7_scores_def by code_simp

lemma run_north7_1: "run pearsonr (north7_object 1) = Inr north7_compressed1"
proof -
  have c: "coeff (north7_scored 1) = Some north7_scores" by (simp add: north7_scored_def)
  have g1: "(1::int) \<le> 1" by simp
  from run_result(2) [OF north7_object_fields(1,2,4,6) g1 moving_average_north7
      update_coeff_north7 c]
  show ?thesis
    by (simp add: max_north7_1 selected_north7_1 north7_object_fields(3) smoothed_north7
        timestamps_north7 north7_compressed1_def)
qed

lemma run_north7_2: "run pearsonr (north7_object 2) = Inr north7_compressed2"
proof -
  have c: "coeff (north7_scored 2) = Some north7_scores" by (simp add: north7_scored_def)
  have g1: "(1::int) \<le> 2" by simp
  from run_result(2) [OF north7_object_fields(1,2,4,6) g1 moving_average_north7
      update_coeff_north7 c]
  show ?thesis
    by (simp add: max_north7_2 selected_north7_2 north7_object_fields(3) smoothed_north7
        timestamps_north7 north7_compressed2_def)
qed

text \<open>
  Claim C7, as stated, fails. On the seven samples of \<open>north7\<close>, with half-widths 1 and 2
  for smoothing and scoring, the run with \<open>gamma = 1\<close> keeps the indices 0, 1, 2 and 3 and
  the run with \<open>gamma = 2\<close> keeps the indices 3 and 5: index 5 is kept under the larger
  half-width only. The score of index 4 is NaN, and the builtin \<open>max\<close> returns NaN for a
  window that starts with it.
\<close>

theorem gamma_subset_counterexample:
  "run pearsonr (north7_object 1) = Inr north7_compressed1
    \<and> run pearsonr (north7_object 2) = Inr north7_compressed2
    \<and> coeff north7_compressed1 = Some north7_scores
    \<and> coeff north7_compressed2 = Some north7_scores
    \<and> selected_indices north7_scores 1 = [0, 1, 2, 3]
    \<and> selected_indices north7_scores 2 = [3, 5]
    \<and> simplified_temporal_position north7_compressed1 = Some [Fin 0, Fin 1, Fin 2, Fin 3]
    \<and> simplified_temporal_position north7_compressed2 = Some [Fin 3, Fin 5]
    \<and> \<not> set (selected_indices north7_scores 2) \<subseteq> set (selected_indices north7_scores 1)"
proof -
  have "coeff north7_compressed1 = Some north7_scores"
    by (simp add: north7_compressed1_def north7_scored_def)
  moreover have "coeff north7_compressed2 = Some north7_scores"
    by (simp add: north7_compressed2_def north7_scored_def)
  moreover have "simplified_temporal_position north7_compressed1 = Some [Fin 0, Fin 1, Fin 2, Fin 3]"
    by (simp add: north7_compressed1_def)
  moreover have "simplified_temporal_position north7_compressed2 = Some [Fin 3, Fin 5]"
    by (simp add: north7_compressed2_def)
  moreover have "\<not> set (selected_indices north7_scores 2) \<subseteq> set (selected_indices north7_scores 1)"
    by (simp add: selected_north7_1 selected_north7_2)
  ultimately show ?thesis
    using run_north7_1 run_north7_2 selected_north7_1 selected_north7_2 by blast
qed

lemma window_rows_mono:
  assumes "g1 \<le> g2"
  shows "set (window_rows c i g1) \<subseteq> set (window_rows c i g2)"
proof -
  have "set (get_params_idx (int i) g1 (int (length c)))
      \<subseteq> set (get_params_idx (int i) g2 (int (length c)))"
    using assms by (auto simp: set_get_params_idx)
  then show ?thesis by (auto simp: window_rows_def)
qed

lemma kept_indices_mono:
  assumes "1 \<le> g1" and "g1 \<le> g2"
  shows "set (kept_indices c g2) \<subseteq> set (kept_indices c g1)"
proof
  fix i assume "i \<in> set (kept_indices c g2)"
  then have i: "i < length c" and m: "is_maximum (c ! i) (window_rows c i g2)"
    by (simp_all add: set_kept_indices)
  from m have "\<forall>u \<in> set (window_rows c i g2). fle u (c ! i)"
    by (simp add: is_maximum_def list_all_iff)
  with window_rows_mono [OF assms(2), of c i]
  have "\<forall>u \<in> set (window_rows c i g1). fle u (c ! i)" by blast
  with window_rows_contains_centre [OF i assms(1)]
  have "is_maximum (c ! i) (window_rows c i g1)" by (simp add: is_maximum_def list_all_iff)
  with i show "i \<in> set (kept_indices c g1)" by (simp add: set_kept_indices)
qed

lemma length_filter_mono:
  "(\<And>x. x \<in> set xs \<Longrightarrow> P x \<Longrightarrow> Q x) \<Longrightarrow> length (filter P xs) \<le> length (filter Q xs)"
  by (induction xs) auto

lemma length_kept_indices_mono:
  assumes "1 \<le> g1" and "g1 \<le> g2"
  shows "length (kept_indices c g2) \<le> length (kept_indices c g1)"
  unfolding kept_indices_def
proof (rule length_filter_mono)
  fix i assume "i \<in> set [0..<length c]" and "is_maximum (c ! i) (window_rows c i g2)"
  then have "i \<in> set (kept_indices c g2)" by (simp add: set_kept_indices)
  with kept_indices_mono [OF assms] have "i \<in> set (kept_indices c g1)" by blast
  then show "is_maximum (c ! i) (window_rows c i g1)" by (simp add: set_kept_indices)
qed

lemma update_coeff_gamma:
  assumes "update_coeff corr s = Inr s2"
  shows "update_coeff corr (s\<lparr>params := (params s)(''gamma'' \<mapsto> g)\<rparr>)
    = Inr (s2\<lparr>params := (params s)(''gamma'' \<mapsto> g)\<rparr>)"
proof -
  let ?s = "s\<lparr>params := (params s)(''gamma'' \<mapsto> g)\<rparr>"
  have gi: "get_index ?s ''beta'' = get_index s ''beta''"
    by (simp add: get_index_def split: option.splits)
  have sc: "score_at corr ?s = score_at corr s"
    by (rule ext) (simp add: score_at_def sub_spatial_array_def sub_temporal_array_def)
  from bindE_Inr [OF assms [unfolded update_coeff_def]]
  obtain idx where idx: "get_index s ''beta'' = Inr idx"
    and 1: "bindE (mapE (score_at corr s) idx) (\<lambda>c. Inr (s\<lparr>coeff := Some c\<rparr>)) = Inr s2"
    by blast
  from bindE_Inr [OF 1] obtain c where c: "mapE (score_at corr s) idx = Inr c"
    and s2: "s2 = s\<lparr>coeff := Some c\<rparr>" by auto
  show ?thesis by (simp add: update_coeff_def gi sc idx c s2 bindE_def)
qed

text \<open>
  Claim C7, amended. For a fixed trajectory and fixed \<open>alpha\<close> and \<open>beta\<close> whose scores
  hold no NaN, and for \<open>1 \<le> gamma1 \<le> gamma2\<close>: the indices kept under \<open>gamma2\<close> are
  among those kept under \<open>gamma1\<close>, and the compression rate under \<open>gamma2\<close> is at least
  the rate under \<open>gamma1\<close>.
\<close>

theorem compression_rate_monotone:
  assumes "sample_size s = int (length (position s))" and "position s \<noteq> []"
    and "params s ''alpha'' = Some alpha"
    and "params s ''gamma'' = Some g1" and "1 \<le> g1" and "g1 \<le> g2"
    and "moving_average s = Inr s1" and "update_coeff corr s1 = Inr s2"
    and "coeff s2 = Some c" and "\<forall>v \<in> set c. \<not> is_nan v"
  shows "\<exists>sa sb ra rb. run corr s = Inr sa
    \<and> run corr (s\<lparr>params := (params s)(''gamma'' \<mapsto> g2)\<rparr>) = Inr sb
    \<and> simplified_temporal_position sa
        = Some (map (\<lambda>i. timestamps_of (position s) ! i) (kept_indices c g1))
    \<and> simplified_temporal_position sb
        = Some (map (\<lambda>i. timestamps_of (position s) ! i) (kept_indices c g2))
    \<and> set (kept_indices c g2) \<subseteq> set (kept_indices c g1)
    \<and> compression_rate sa = Inr (Fin ra) \<and> compression_rate sb = Inr (Fin rb) \<and> ra \<le> rb"
proof -
  let ?p = "(params s)(''gamma'' \<mapsto> g2)"
  let ?t = "s\<lparr>params := ?p\<rparr>"
  let ?ts = "timestamps_of (position s)"
  have g2: "1 \<le> g2" using assms(5,6) by simp
  have s1: "s1 = s\<lparr>spatial_position := Some (spatial_of (position s)),
              temporal_position := Some ?ts,
              filtering_spatial_position := Some (smoothed_trajectory (position s) alpha),
              filtering_temporal_position := Some ?ts\<rparr>"
    using assms(7) moving_average_result [OF assms(1,3)] by simp
  have tn: "sample_size ?t = int (length (position ?t))" using assms(1) by simp
  have ta: "params ?t ''alpha'' = Some alpha" using assms(3) by simp
  have tg: "params ?t ''gamma'' = Some g2" by simp
  have tne: "position ?t \<noteq> []" using assms(2) by simp
  have p1: "params s1 = params s" by (simp add: s1)
  have tma: "moving_average ?t = Inr (s1\<lparr>params := ?p\<rparr>)"
    using moving_average_result [OF tn ta] by (simp add: s1)
  have tuc: "update_coeff corr (s1\<lparr>params := ?p\<rparr>) = Inr (s2\<lparr>params := ?p\<rparr>)"
    using update_coeff_gamma [OF assms(8), of g2] by (simp add: p1)
  have tc: "coeff (s2\<lparr>params := ?p\<rparr>) = Some c" using assms(9) by simp
  note ra = run_result [OF assms(1,2,3,4,5,7,8,9)]
  note rb = run_result [OF tn tne ta tg g2 tma tuc tc]
  have ka: "selected_indices c g1 = kept_indices c g1"
    by (rule selected_is_kept [OF assms(10,5)])
  have kb: "selected_indices c g2 = kept_indices c g2"
    by (rule selected_is_kept [OF assms(10) g2])
  let ?sta = "map (\<lambda>i. ?ts ! i) (kept_indices c g1)"
  let ?stb = "map (\<lambda>i. ?ts ! i) (kept_indices c g2)"
  obtain sa where sa: "run corr s = Inr sa" "simplified_temporal_position sa = Some ?sta"
    "temporal_position sa = Some ?ts"
    using ra(2,3) by (simp add: ka)
  obtain sb where sb: "run corr ?t = Inr sb" "simplified_temporal_position sb = Some ?stb"
    "temporal_position sb = Some ?ts"
    using rb(2,3) by (simp add: kb)
  have ne: "?ts \<noteq> []" using assms(2) by (simp add: timestamps_of_def)
  have rate_a: "compression_rate sa = Inr (Fin (1 - real (length ?sta) / real (length ?ts)))"
    by (rule compression_rate_result [OF sa(2,3) ne])
  have rate_b: "compression_rate sb = Inr (Fin (1 - real (length ?stb) / real (length ?ts)))"
    by (rule compression_rate_result [OF sb(2,3) ne])
  have "length ?stb \<le> length ?sta"
    using length_kept_indices_mono [OF assms(5,6), of c] by simp
  then have "real (length ?stb) / real (length ?ts) \<le> real (length ?sta) / real (length ?ts)"
    by (simp add: divide_right_mono)
  then have le: "1 - real (length ?sta) / real (length ?ts)
      \<le> 1 - real (length ?stb) / real (length ?ts)" by simp
  from sa(1,2) sb(1,2) kept_indices_mono [OF assms(5,6), of c] rate_a rate_b le
  show ?thesis by blast
qed

lemma kept_line4_2: "kept_indices line4_scores 2 = [1]"
  unfolding line4_scores_def by code_simp

theorem compression_rate_monotone_witness:
  "\<exists>sa sb ra rb. run pearsonr line4_object = Inr sa
    \<and> run pearsonr (line4_object\<lparr>params := (params line4_object)(''gamma'' \<mapsto> 2)\<rparr>) = Inr sb
    \<and> simplified_temporal_position sa = Some [Fin 0, Fin 1]
    \<and> simplified_temporal_position sb = Some [Fin 1]
    \<and> compression_rate sa = Inr (Fin ra) \<and> compression_rate sb = Inr (Fin rb) \<and> ra \<le> rb"
proof -
  have c: "coeff line4_scored = Some line4_scores" by (simp add: line4_scored_def)
  have g1: "(1::int) \<le> 1" and g2: "(1::int) \<le> 2" by simp_all
  from compression_rate_monotone [OF line4_object_fields(1,2,4,6) g1 g2 moving_average_line4
      update_coeff_line4 c line4_scores_not_nan]
  obtain sa sb ra rb where r: "run pearsonr line4_object = Inr sa"
      "run pearsonr (line4_object\<lparr>params := (params line4_object)(''gamma'' \<mapsto> 2)\<rparr>) = Inr sb"
      "compression_rate sa = Inr (Fin ra)" "compression_rate sb = Inr (Fin rb)" "ra \<le> rb"
    and ta: "simplified_temporal_position sa
        = Some (map (\<lambda>i. timestamps_of (position line4_object) ! i) (kept_indices line4_scores 1))"
    and tb: "simplified_temporal_position sb
        = Some (map (\<lambda>i. timestamps_of (position line4_object) ! i) (kept_indices line4_scores 2))"
    by blast
  from ta have "simplified_temporal_position sa = Some [Fin 0, Fin 1]"
    by (simp add: kept_line4 line4_object_fields(3) timestamps_line4)
  moreover from tb have "simplified_temporal_position sb = Some [Fin 1]"
    by (simp add: kept_line4_2 line4_object_fields(3) timestamps_line4)
  ultimately show ?thesis using r by blast
qed

subsection \<open>Windows of one sample\<close>

lemma ksi_single:
  "ksi_func pearsonr [(Fin 0, Fin 1)] [Fin 0] = Inl ValueError"
  by (simp add: ksi_func_def bindE_def pearsonr_def)

lemma moving_average_narrow: "moving_average line4_narrow = Inr line4_narrow_smoothed"
  by (simp add: moving_average_def eval_defs line4_def line4_narrow_def line4_narrow_smoothed_def)

lemma update_coeff_narrow: "update_coeff pearsonr line4_narrow_smoothed = Inl ValueError"
  by (simp add: update_coeff_def score_at_def sub_spatial_array_def sub_temporal_array_def
      eval_defs ksi_single line4_narrow_smoothed_def line4_narrow_def)

lemma moving_average_single: "moving_average single1_object = Inr single1_smoothed"
  by (simp add: moving_average_def eval_defs single1_def single1_object_def single1_smoothed_def)

lemma update_coeff_single: "update_coeff pearsonr single1_smoothed = Inl ValueError"
  by (simp add: update_coeff_def score_at_def sub_spatial_array_def sub_temporal_array_def
      eval_defs ksi_single single1_smoothed_def single1_object_def)

text \<open>
  Claim C4, as stated, fails. With \<open>beta = 1\<close> the window of index 0 holds one sample,
  and so does the only window of a trajectory of one sample with \<open>beta = 2\<close>: there
  \<open>pearsonr\<close> raises \<^verbatim>\<open>ValueError\<close>, \<open>update_coeff\<close> and the run raise it, and no
  score exists.
\<close>

theorem single_sample_window_counterexample:
  "get_params_idx 0 1 4 = [0]
    \<and> moving_average line4_narrow = Inr line4_narrow_smoothed
    \<and> update_coeff pearsonr line4_narrow_smoothed = Inl ValueError
    \<and> run pearsonr line4_narrow = Inl ValueError
    \<and> get_params_idx 0 2 1 = [0]
    \<and> moving_average single1_object = Inr single1_smoothed
    \<and> update_coeff pearsonr single1_smoothed = Inl ValueError
    \<and> run pearsonr single1_object = Inl ValueError"
proof -
  have "get_params_idx 0 1 4 = [0]" and "get_params_idx 0 2 1 = [0]"
    by (simp_all add: get_params_idx_def arange_def)
  moreover have "run pearsonr line4_narrow = Inl ValueError"
    by (simp add: run_def bindE_def moving_average_narrow update_coeff_narrow)
  moreover have "run pearsonr single1_object = Inl ValueError"
    by (simp add: run_def bindE_def moving_average_single update_coeff_single)
  ultimately show ?thesis
    using moving_average_narrow update_coeff_narrow moving_average_single update_coeff_single
    by blast
qed

subsection \<open>Scores with NaN\<close>

lemma kept_north7_2: "kept_indices north7_scores 2 = []"
  unfolding north7_scores_def by code_simp

lemma window_north7_5_1: "window_rows north7_scores 5 1 = [NaN, Fin (4250 / 1587)]"
  unfolding north7_scores_def by code_simp

lemma window_north7_5_2:
  "window_rows north7_scores 5 2 = [Fin (8 / 3), NaN, Fin (4250 / 1587), Fin (176 / 75)]"
  unfolding north7_scores_def by code_simp

lemma update_max_coeff_north7_0: "update_max_coeff (north7_scored 0) = Inl ValueError"
  by (simp add: update_max_coeff_def sub_coeff_def pymax_def eval_defs north7_scored_def
      north7_smoothed_def north7_object_def north7_scores_def)

lemma run_north7_0: "run pearsonr (north7_object 0) = Inl ValueError"
  by (simp add: run_def bindE_def moving_average_north7 update_coeff_north7
      update_max_coeff_north7_0)

text \<open>
  Claim C1, as stated, fails. On the seven samples of \<open>north7\<close> the score of index 4 is
  NaN. With \<open>gamma = 2\<close> the run keeps the indices 3 and 5, though the windows of both
  hold the NaN, which no score equals or exceeds: no index has the maximum of its window.
  With \<open>gamma = 1\<close> the window of index 5 holds the NaN and the score of index 5, and the
  run drops index 5. With \<open>gamma = 0\<close> every window is empty and the run raises
  \<^verbatim>\<open>ValueError\<close>.
\<close>

theorem nan_window_counterexample:
  "coeff north7_compressed2 = Some north7_scores
    \<and> run pearsonr (north7_object 2) = Inr north7_compressed2
    \<and> simplified_temporal_position north7_compressed2 = Some [Fin 3, Fin 5]
    \<and> window_rows north7_scores 5 2 = [Fin (8 / 3), NaN, Fin (4250 / 1587), Fin (176 / 75)]
    \<and> kept_indices north7_scores 2 = []
    \<and> run pearsonr (north7_object 1) = Inr north7_compressed1
    \<and> simplified_temporal_position north7_compressed1 = Some [Fin 0, Fin 1, Fin 2, Fin 3]
    \<and> window_rows north7_scores 5 1 = [NaN, Fin (4250 / 1587)]
    \<and> run pearsonr (north7_object 0) = Inl ValueError"
proof -
  have "coeff north7_compressed2 = Some north7_scores"
    by (simp add: north7_compressed2_def north7_scored_def)
  moreover have "simplified_temporal_position north7_compressed2 = Some [Fin 3, Fin 5]"
    by (simp add: north7_compressed2_def)
  moreover have "simplified_temporal_position north7_compressed1 = Some [Fin 0, Fin 1, Fin 2, Fin 3]"
    by (simp add: north7_compressed1_def)
  ultimately show ?thesis
    using run_north7_1 run_north7_2 run_north7_0 kept_north7_2 window_north7_5_1
      window_north7_5_2 by blast
qed

end
